theory Spec2Isabelle
  imports Main "HOL-Library.Sublist"
begin

section \<open>Python strings\<close>

text \<open>
  A Python \<^verbatim>\<open>str\<close> is a sequence of Unicode code points; \<^verbatim>\<open>len\<close> counts them. The
  literals of the source are ASCII and are written with \<open>str\<close>; other glyphs are given by
  their code points.
\<close>

type_synonym pystr = "nat list"

definition str :: "string \<Rightarrow> pystr" where
  "str s = map of_char s"

text \<open>
  The white space of \<^verbatim>\<open>str.strip()\<close>: the code points for which \<^verbatim>\<open>str.isspace()\<close>
  holds.
\<close>

definition is_space :: "nat \<Rightarrow> bool" where
  "is_space c =
     ((9 \<le> c \<and> c \<le> 13) \<or> (28 \<le> c \<and> c \<le> 32) \<or> c = 133 \<or> c = 160 \<or> c = 5760
      \<or> (8192 \<le> c \<and> c \<le> 8202) \<or> c = 8232 \<or> c = 8233 \<or> c = 8239 \<or> c = 8287
      \<or> c = 12288)"

text \<open>\<^verbatim>\<open>s.strip()\<close>\<close>

definition strip :: "pystr \<Rightarrow> pystr" where
  "strip s = rev (dropWhile is_space (rev (dropWhile is_space s)))"

text \<open>
  The tables of the Unicode character database that the string methods and the query
  engine consult; they are not part of the program and are taken as they are:
  the title-case mapping of a code point, its lower-case mapping at a place of a string
  (the text before it and the text after it decide the final sigma), whether it is cased,
  and when the engine takes two code points as equal up to letter case.
\<close>

record unicode =
  to_title :: "nat \<Rightarrow> pystr"
  lower_in :: "pystr \<Rightarrow> nat \<Rightarrow> pystr \<Rightarrow> pystr"
  is_cased :: "nat \<Rightarrow> bool"
  caseless :: "nat \<Rightarrow> nat \<Rightarrow> bool"

text \<open>
  \<^verbatim>\<open>s.title()\<close>: a code point that follows a cased one is mapped to lower case, any
  other one to title case.
\<close>

fun title_from :: "unicode \<Rightarrow> pystr \<Rightarrow> bool \<Rightarrow> pystr \<Rightarrow> pystr" where
  "title_from tab before prev [] = []"
| "title_from tab before prev (c # cs) =
     (if prev then lower_in tab before c cs else to_title tab c)
     @ title_from tab (before @ [c]) (is_cased tab c) cs"

definition title :: "unicode \<Rightarrow> pystr \<Rightarrow> pystr" where
  "title tab s = title_from tab [] False s"

text \<open>\<^verbatim>\<open>s.split(sep)\<close> for a separator that is not empty (Python raises on an empty one).\<close>

function split_from :: "pystr \<Rightarrow> pystr \<Rightarrow> pystr \<Rightarrow> pystr list" where
  "split_from sep acc [] = [rev acc]"
| "split_from sep acc (c # cs) =
     (if sep \<noteq> [] \<and> prefix sep (c # cs)
      then rev acc # split_from sep [] (drop (length sep) (c # cs))
      else split_from sep (c # acc) cs)"
  by pat_completeness auto
termination
  by (relation "measure (\<lambda>(sep, acc, s). length s)") (auto simp: neq_Nil_conv)

definition split :: "pystr \<Rightarrow> pystr \<Rightarrow> pystr list" where
  "split s sep = split_from sep [] s"

text \<open>\<^verbatim>\<open>sep.join(parts)\<close>\<close>

fun join :: "pystr \<Rightarrow> pystr list \<Rightarrow> pystr" where
  "join sep [] = []"
| "join sep [p] = p"
| "join sep (p # q # ps) = p @ sep @ join sep (q # ps)"

text \<open>\<^verbatim>\<open>s.replace(old, new)\<close> for a non-empty \<open>old\<close>.\<close>

definition replace :: "pystr \<Rightarrow> pystr \<Rightarrow> pystr \<Rightarrow> pystr" where
  "replace s old new = join new (split s old)"

text \<open>\<^verbatim>\<open>sub in s\<close>\<close>

definition contains :: "pystr \<Rightarrow> pystr \<Rightarrow> bool" where
  "contains s sub = list_ex (prefix sub) (suffixes s)"

text \<open>\<^verbatim>\<open>s.strip('/')\<close>\<close>

definition strip_slash :: "pystr \<Rightarrow> pystr" where
  "strip_slash s = rev (dropWhile (\<lambda>c. c = 47) (rev (dropWhile (\<lambda>c. c = 47) s)))"

text \<open>\<^verbatim>\<open>str(n)\<close> for a natural number and for an integer.\<close>

function str_nat :: "nat \<Rightarrow> pystr" where
  "str_nat n = (if n < 10 then [48 + n] else str_nat (n div 10) @ [48 + n mod 10])"
  by pat_completeness auto
termination
  by (relation "measure id") auto

declare str_nat.simps [simp del]

definition str_int :: "int \<Rightarrow> pystr" where
  "str_int i = (if i < 0 then 45 # str_nat (nat (- i)) else str_nat (nat i))"

text \<open>\<^verbatim>\<open>f"{s:<w}"\<close>: pad with spaces on the right up to width \<open>w\<close>.\<close>

definition ljust :: "nat \<Rightarrow> pystr \<Rightarrow> pystr" where
  "ljust w s = s @ replicate (w - length s) 32"

text \<open>\<^verbatim>\<open>"%0wd" % n\<close> for a natural number.\<close>

definition zfill :: "nat \<Rightarrow> nat \<Rightarrow> pystr" where
  "zfill w n = replicate (w - length (str_nat n)) 48 @ str_nat n"

text \<open>
  \<^verbatim>\<open>str(timedelta)\<close>, the duration given in microseconds: days, seconds and
  microseconds are normalised with floor division as \<^verbatim>\<open>timedelta\<close> does.
\<close>

definition str_timedelta :: "int \<Rightarrow> pystr" where
  "str_timedelta us =
     (let days = us div 86400000000;
          rest = nat (us mod 86400000000);
          seconds = rest div 1000000;
          micro = rest mod 1000000;
          hh = seconds div 3600;
          mm = (seconds div 60) mod 60;
          ss = seconds mod 60;
          s = str_nat hh @ str '':'' @ zfill 2 mm @ str '':'' @ zfill 2 ss;
          s = (if days \<noteq> 0
               then str_int days @ str '' day'' @ (if \<bar>days\<bar> \<noteq> 1 then str ''s'' else [])
                    @ str '', '' @ s
               else s)
      in if micro \<noteq> 0 then s @ str ''.'' @ zfill 6 micro else s)"

text \<open>
  The query \<^verbatim>\<open>re.compile(f"^{re.escape(pat)}$", re.IGNORECASE)\<close> applied to a stored
  field: the whole field equals the literal, code point by code point up to letter case;
  \<^verbatim>\<open>$\<close> also matches before one final newline.
\<close>

definition regex_ci_match :: "unicode \<Rightarrow> pystr \<Rightarrow> pystr \<Rightarrow> bool" where
  "regex_ci_match tab pat s =
     (list_all2 (caseless tab) pat s
      \<or> (s \<noteq> [] \<and> last s = 10 \<and> list_all2 (caseless tab) pat (butlast s)))"

lemmas str_defs = str_def strip_def title_def is_space_def split_def replace_def contains_def
  strip_slash_def str_int_def ljust_def zfill_def regex_ci_match_def

section \<open>The guild, the store and the outside world\<close>

datatype error = ApiError | AttributeError | TypeError | IndexError | NotFound

text \<open>\<^verbatim>\<open>discord.PermissionOverwrite\<close>, keyed by the id of the role it applies to.\<close>

record overwrite =
  ow_target :: nat
  read_messages :: "bool option"
  send_messages :: "bool option"

record role =
  role_id :: nat
  role_name :: pystr
  role_colour :: nat
  mentionable :: bool

record category =
  cat_id :: nat
  cat_name :: pystr
  cat_overwrites :: "overwrite list"

record embed =
  embed_title :: pystr
  embed_description :: pystr
  embed_colour :: pystr
  embed_footer :: pystr

record message =
  msg_id :: nat
  content :: pystr
  msg_embed :: "embed option"
  msg_view :: "pystr option"
  pinned :: bool

datatype channel_type = TextChannel | VoiceChannel

record channel =
  chan_id :: nat
  chan_name :: pystr
  chan_type :: channel_type
  category_id :: "nat option"
  chan_overwrites :: "overwrite list"
  messages :: "message list"

datatype event_status = scheduled | active | ended | cancelled

record scheduled_event =
  ev_id :: nat
  ev_name :: pystr
  ev_description :: pystr
  ev_status :: event_status
  start_time :: int
  end_time :: int
  ev_image :: pystr
  user_count :: int
  location :: pystr
  ev_users :: "nat list"

text \<open>What \<^verbatim>\<open>scrape_event_info\<close> returns for an event of the public catalog.\<close>

record event_info =
  ei_id :: nat
  ei_name :: pystr
  ei_start :: pystr
  ei_end :: pystr
  ei_description :: pystr
  ei_organizers :: "pystr list"
  ei_prizes :: pystr
  ei_location :: pystr
  ei_format :: pystr
  ei_weight :: pystr
  ei_logo :: pystr
  ei_website :: pystr

text \<open>The documents of \<^verbatim>\<open>CTF_COLLECTION\<close> and \<^verbatim>\<open>CHALLENGE_COLLECTION\<close>.\<close>

record credentials =
  url :: "pystr option"
  username :: "pystr option"
  password :: "pystr option"

record guild_channels =
  announcements :: nat
  credentials_ch :: nat
  scoreboard :: nat
  solves :: nat
  notes_ch :: nat
  bot_cmds :: nat

record ctf =
  ctf_oid :: nat
  ctf_name :: pystr
  archived :: bool
  ctf_ended :: bool
  ctf_credentials :: credentials
  challenges :: "nat list"
  guild_role :: nat
  guild_category :: nat
  ctf_channels :: guild_channels

record challenge_doc =
  chal_oid :: nat
  chal_id :: pystr
  chal_name :: pystr
  chal_category :: pystr
  chal_channel :: nat
  solved :: bool
  blooded :: bool
  players :: "nat list"
  announcement :: nat
  solve_time :: "int option"
  solve_announcement :: "nat option"

text \<open>A task descriptor as \<^verbatim>\<open>pull_challenges\<close> yields it.\<close>

record challenge =
  c_id :: pystr
  c_name :: pystr
  c_category :: pystr
  c_description :: pystr
  c_tags :: "pystr list"
  c_files :: "pystr list"
  c_value :: int

text \<open>Every call that changes the guild or the store, or asks the scoring platform.\<close>

datatype effect =
    CreateRole pystr
  | CreateCategory pystr
  | CreateTextChannel pystr "nat option"
  | CreateVoiceChannel pystr "nat option"
  | EditCategory nat pystr
  | InsertCtf pystr
  | UpdateCtf nat
  | InsertChallenge pystr
  | Send nat pystr
  | Edit nat nat pystr
  | Pin nat
  | Purge nat
  | AddRoles nat nat
  | Register pystr
  | PullChallenges pystr
  | GetScoreboard pystr
  | HttpGet pystr
  | CreateScheduledEvent pystr
  | EditScheduledEvent nat pystr

record world =
  default_role :: nat
  everyone_reads :: bool
  roles :: "role list"
  categories :: "category list"
  channels :: "channel list"
  members :: "(nat \<times> nat list) list"
  scheduled_events :: "scheduled_event list"
  next_id :: nat
  ctf_collection :: "ctf list"
  challenge_collection :: "challenge_doc list"
  next_oid :: nat
  trace :: "effect list"

text \<open>
  What \<^verbatim>\<open>get_scoreboard\<close> gives: the teams by rank, each with its name and its score, a
  number of some type \<open>'s\<close>. The environment renders \<^verbatim>\<open>round(score, 4)\<close> as text.
\<close>

datatype 's scoreboard_result = InvalidURL | Teams "(pystr \<times> 's) list"

text \<open>
  The configuration, the helpers of \<^verbatim>\<open>lib\<close> and the answers of the outside world
  during one run. \<open>api_ok n\<close> tells whether the call made after \<open>n\<close> earlier effects
  succeeds; a call that does not raises.
\<close>

record 's env =
  ucd :: unicode
  str_round4 :: "'s \<Rightarrow> pystr"
  MIN_PLAYERS :: int
  TEAM_NAME :: pystr
  TEAM_EMAIL :: pystr
  CTFTIME_URL :: pystr
  truncate_text :: "pystr \<Rightarrow> nat \<Rightarrow> pystr"
  ctftime_date_to_datetime :: "pystr \<Rightarrow> int"
  list_events :: "nat list option"
  scrape_event_info :: "nat \<Rightarrow> event_info option"
  fetch_image :: "pystr \<Rightarrow> pystr"
  derive_colour :: "pystr \<Rightarrow> nat"
  sanitize_channel_name :: "pystr \<Rightarrow> pystr"
  register_to_ctfd :: "pystr \<Rightarrow> pystr \<Rightarrow> pystr \<Rightarrow> pystr \<Rightarrow> pystr list"
  pull_challenges :: "pystr \<Rightarrow> pystr option \<Rightarrow> pystr option \<Rightarrow> challenge list"
  get_scoreboard :: "pystr \<Rightarrow> pystr option \<Rightarrow> pystr option \<Rightarrow> 's scoreboard_result"
  urandom_hex :: "nat \<Rightarrow> pystr"
  now_str :: "nat \<Rightarrow> pystr"
  api_ok :: "nat \<Rightarrow> bool"

type_synonym 'a action = "world \<Rightarrow> (error + 'a) \<times> world"

definition return :: "'a \<Rightarrow> 'a action" where
  "return x w = (Inr x, w)"

definition raise :: "error \<Rightarrow> 'a action" where
  "raise e w = (Inl e, w)"

definition bnd :: "'a action \<Rightarrow> ('a \<Rightarrow> 'b action) \<Rightarrow> 'b action" where
  "bnd m f w = (case m w of (Inl e, w') \<Rightarrow> (Inl e, w') | (Inr x, w') \<Rightarrow> f x w')"

text \<open>An outside call: it raises when the outside world refuses it, else it is recorded.\<close>

definition call :: "'s env \<Rightarrow> effect \<Rightarrow> unit action" where
  "call env e w =
     (if api_ok env (length (trace w)) then (Inr (), w\<lparr>trace := trace w @ [e]\<rparr>)
      else (Inl ApiError, w))"


section \<open>Guild and store operations\<close>

definition alarm_clock :: pystr where
  "alarm_clock = [9200]"

definition red_circle :: pystr where
  "red_circle = [128308]"

definition chequered_flag :: pystr where
  "chequered_flag = [127937]"

definition key_glyph :: pystr where
  "key_glyph = [128273]"

definition memo_glyph :: pystr where
  "memo_glyph = [128221]"

definition robot_glyph :: pystr where
  "robot_glyph = [129302]"

definition megaphone_glyph :: pystr where
  "megaphone_glyph = [128227]"

definition party_glyph :: pystr where
  "party_glyph = [127881]"

definition chart_glyph :: pystr where
  "chart_glyph = [128200]"

definition cross_glyph :: pystr where
  "cross_glyph = [10060]"

definition bell_glyph :: pystr where
  "bell_glyph = [128276]"

definition em_dash :: pystr where
  "em_dash = [8212]"

text \<open>\<^verbatim>\<open>find_one({"name": re.compile(f"^{re.escape(name.strip())}$", re.IGNORECASE)})\<close>\<close>

definition find_ctf :: "unicode \<Rightarrow> pystr \<Rightarrow> world \<Rightarrow> ctf option" where
  "find_ctf tab name w =
     find (\<lambda>c. regex_ci_match tab (strip name) (ctf_name c)) (ctf_collection w)"

definition create_role :: "'s env \<Rightarrow> pystr \<Rightarrow> nat \<Rightarrow> bool \<Rightarrow> role action" where
  "create_role env name colour ment =
     bnd (call env (CreateRole name)) (\<lambda>_ w.
       let r = \<lparr>role_id = next_id w, role_name = name, role_colour = colour,
                mentionable = ment\<rparr>
       in (Inr r, w\<lparr>roles := roles w @ [r], next_id := Suc (next_id w)\<rparr>))"

definition create_category :: "'s env \<Rightarrow> pystr \<Rightarrow> overwrite list \<Rightarrow> category action" where
  "create_category env name ows =
     bnd (call env (CreateCategory name)) (\<lambda>_ w.
       let c = \<lparr>cat_id = next_id w, cat_name = name, cat_overwrites = ows\<rparr>
       in (Inr c, w\<lparr>categories := categories w @ [c], next_id := Suc (next_id w)\<rparr>))"

text \<open>
  \<^verbatim>\<open>guild.create_text_channel\<close> and \<^verbatim>\<open>guild.create_voice_channel\<close>: without
  overwrites the new channel takes those of its category.
\<close>

definition new_channel ::
  "channel_type \<Rightarrow> pystr \<Rightarrow> category option \<Rightarrow> overwrite list option \<Rightarrow> channel action" where
  "new_channel ty name cat ows w =
     (let ch = \<lparr>chan_id = next_id w, chan_name = name, chan_type = ty,
                 category_id = map_option cat_id cat,
                 chan_overwrites =
                   (case ows of Some given \<Rightarrow> given
                    | None \<Rightarrow> (case cat of Some c \<Rightarrow> cat_overwrites c | None \<Rightarrow> [])),
                 messages = []\<rparr>
      in (Inr ch, w\<lparr>channels := channels w @ [ch], next_id := Suc (next_id w)\<rparr>))"

definition create_text_channel ::
  "'s env \<Rightarrow> pystr \<Rightarrow> category option \<Rightarrow> overwrite list option \<Rightarrow> channel action" where
  "create_text_channel env name cat ows =
     bnd (call env (CreateTextChannel name (map_option cat_id cat)))
       (\<lambda>_. new_channel TextChannel name cat ows)"

definition create_voice_channel ::
  "'s env \<Rightarrow> pystr \<Rightarrow> category option \<Rightarrow> overwrite list option \<Rightarrow> channel action" where
  "create_voice_channel env name cat ows =
     bnd (call env (CreateVoiceChannel name (map_option cat_id cat)))
       (\<lambda>_. new_channel VoiceChannel name cat ows)"

text \<open>\<^verbatim>\<open>insert_one\<close> gives the document its \<^verbatim>\<open>_id\<close>.\<close>

definition insert_ctf :: "'s env \<Rightarrow> ctf \<Rightarrow> ctf action" where
  "insert_ctf env doc =
     bnd (call env (InsertCtf (ctf_name doc))) (\<lambda>_ w.
       let d = doc\<lparr>ctf_oid := next_oid w\<rparr>
       in (Inr d, w\<lparr>ctf_collection := ctf_collection w @ [d], next_oid := Suc (next_oid w)\<rparr>))"

section \<open>\<^verbatim>\<open>Eruditus.create_ctf\<close>\<close>

definition create_ctf :: "'s env \<Rightarrow> pystr \<Rightarrow> bool \<Rightarrow> ctf option action" where
  "create_ctf env name live w0 =
     (if find_ctf (ucd env) name w0 \<noteq> None then (Inr None, w0)
      else
       bnd (\<lambda>w. case find (\<lambda>r. role_name r = name) (roles w) of
                   Some r \<Rightarrow> (Inr r, w)
                 | None \<Rightarrow> create_role env name (derive_colour env name) True w)
       (\<lambda>role.
       bnd (\<lambda>w. case find (\<lambda>c. cat_name c = name) (categories w) of
                   Some c \<Rightarrow> (Inr c, w)
                 | None \<Rightarrow>
                     create_category env
                       ((if live then red_circle else alarm_clock) @ (str '' '') @ name)
                       [\<lparr>ow_target = default_role w, read_messages = Some False,
                          send_messages = None\<rparr>,
                        \<lparr>ow_target = role_id role, read_messages = Some True,
                          send_messages = None\<rparr>] w)
       (\<lambda>category_channel.
       bnd (create_text_channel env (str ''general'') (Some category_channel) None) (\<lambda>_.
       bnd (create_voice_channel env (str ''general'') (Some category_channel) None) (\<lambda>_.
       bnd (\<lambda>w. (Inr [\<lparr>ow_target = default_role w, read_messages = Some False,
                         send_messages = None\<rparr>,
                       \<lparr>ow_target = role_id role, read_messages = Some True,
                         send_messages = Some False\<rparr>], w))
       (\<lambda>overwrites.
       bnd (create_text_channel env (key_glyph @ (str ''-credentials'')) (Some category_channel)
              (Some overwrites)) (\<lambda>credentials_channel.
       bnd (create_text_channel env (memo_glyph @ (str ''-notes'')) (Some category_channel)
              (Some overwrites)) (\<lambda>notes_channel.
       bnd (create_text_channel env (robot_glyph @ (str ''-bot-cmds'')) (Some category_channel)
              (Some overwrites)) (\<lambda>bot_cmds_channel.
       bnd (create_text_channel env (megaphone_glyph @ (str ''-announcements''))
              (Some category_channel) (Some overwrites)) (\<lambda>announcement_channel.
       bnd (create_text_channel env (party_glyph @ (str ''-solves'')) (Some category_channel)
              (Some overwrites)) (\<lambda>solves_channel.
       bnd (create_text_channel env (chart_glyph @ (str ''-scoreboard'')) (Some category_channel)
              (Some overwrites)) (\<lambda>scoreboard_channel.
       bnd (insert_ctf env
              \<lparr>ctf_oid = 0, ctf_name = name, archived = False, ctf_ended = False,
               ctf_credentials = \<lparr>url = None, username = None, password = None\<rparr>,
               challenges = [],
               guild_role = role_id role,
               guild_category = cat_id category_channel,
               ctf_channels =
                 \<lparr>announcements = chan_id announcement_channel,
                  credentials_ch = chan_id credentials_channel,
                  scoreboard = chan_id scoreboard_channel,
                  solves = chan_id solves_channel,
                  notes_ch = chan_id notes_channel,
                  bot_cmds = chan_id bot_cmds_channel\<rparr>\<rparr>)
       (\<lambda>ctf. return (Some ctf))))))))))))) w0)"


text \<open>\<^verbatim>\<open>channel.send\<close>: the new message becomes the last one of the channel.\<close>

definition send ::
  "'s env \<Rightarrow> nat \<Rightarrow> pystr \<Rightarrow> embed option \<Rightarrow> pystr option \<Rightarrow> message action" where
  "send env cid text emb view =
     bnd (call env (Send cid (case emb of None \<Rightarrow> text | Some e \<Rightarrow> embed_title e))) (\<lambda>_ w.
       let m = \<lparr>msg_id = next_id w, content = text, msg_embed = emb, msg_view = view,
                pinned = False\<rparr>
       in (Inr m,
           w\<lparr>channels :=
                map (\<lambda>c. if chan_id c = cid then c\<lparr>messages := messages c @ [m]\<rparr> else c)
                  (channels w),
              next_id := Suc (next_id w)\<rparr>))"

definition pin :: "'s env \<Rightarrow> nat \<Rightarrow> unit action" where
  "pin env mid =
     bnd (call env (Pin mid)) (\<lambda>_ w.
       (Inr (),
        w\<lparr>channels :=
             map (\<lambda>c. c\<lparr>messages :=
                          map (\<lambda>m. if msg_id m = mid then m\<lparr>pinned := True\<rparr> else m)
                            (messages c)\<rparr>)
               (channels w)\<rparr>))"

fun update_first :: "('a \<Rightarrow> bool) \<Rightarrow> ('a \<Rightarrow> 'a) \<Rightarrow> 'a list \<Rightarrow> 'a list" where
  "update_first p f [] = []"
| "update_first p f (x # xs) = (if p x then f x # xs else x # update_first p f xs)"

text \<open>\<^verbatim>\<open>update_one({"_id": oid}, {"$set": ...})\<close>\<close>

definition update_ctf :: "'s env \<Rightarrow> nat \<Rightarrow> (ctf \<Rightarrow> ctf) \<Rightarrow> unit action" where
  "update_ctf env oid f =
     bnd (call env (UpdateCtf oid)) (\<lambda>_ w.
       (Inr (),
        w\<lparr>ctf_collection := update_first (\<lambda>c. ctf_oid c = oid) f (ctf_collection w)\<rparr>))"

definition insert_challenge :: "'s env \<Rightarrow> challenge_doc \<Rightarrow> nat action" where
  "insert_challenge env doc =
     bnd (call env (InsertChallenge (chal_name doc))) (\<lambda>_ w.
       (Inr (next_oid w),
        w\<lparr>challenge_collection := challenge_collection w @ [doc\<lparr>chal_oid := next_oid w\<rparr>],
           next_oid := Suc (next_oid w)\<rparr>))"

text \<open>\<^verbatim>\<open>role.mention\<close>\<close>

definition mention :: "role \<Rightarrow> pystr" where
  "mention r = (str ''<@&'') @ str_nat (role_id r) @ (str ''>'')"

text \<open>An attribute of a value that \<^verbatim>\<open>discord.utils.get\<close> may have left \<^verbatim>\<open>None\<close>.\<close>

definition attr :: "'a option \<Rightarrow> 'a action" where
  "attr x = (case x of None \<Rightarrow> raise AttributeError | Some v \<Rightarrow> return v)"

definition text_channel :: "nat \<Rightarrow> world \<Rightarrow> channel option" where
  "text_channel cid w =
     find (\<lambda>c. chan_id c = cid) (filter (\<lambda>c. chan_type c = TextChannel) (channels w))"

section \<open>\<^verbatim>\<open>Eruditus.challenge_puller\<close>\<close>

text \<open>The query that tells whether a task was already created.\<close>

definition find_challenge :: "unicode \<Rightarrow> challenge \<Rightarrow> world \<Rightarrow> challenge_doc option" where
  "find_challenge tab ch w =
     find (\<lambda>d. chal_id d = c_id ch \<and> regex_ci_match tab (c_name ch) (chal_name d)
               \<and> regex_ci_match tab (c_category ch) (chal_category d))
       (challenge_collection w)"

text \<open>The embed posted in the channel of a task, and the one that announces the task.\<close>

definition challenge_embed :: "challenge \<Rightarrow> pystr \<Rightarrow> pystr \<Rightarrow> embed" where
  "challenge_embed ch base now =
     \<lparr>embed_title = c_name ch @ str '' - '' @ str_int (c_value ch) @ str '' points'',
      embed_description =
        str ''**Category:** '' @ c_category ch @ [10]
        @ str ''**Description:** ''
        @ (if c_description ch = [] then str ''No description.'' else c_description ch) @ [10]
        @ str ''**Files:** ''
        @ (if c_files ch = [] then str ''No files.''
           else [10] @ str ''- ''
             @ join ([10] @ str ''- '') (map (\<lambda>file. strip_slash base @ file) (c_files ch)))
        @ [10]
        @ str ''**Tags:** ''
        @ (if join (str '', '') (c_tags ch) = [] then str ''No tags.''
           else join (str '', '') (c_tags ch)),
      embed_colour = str ''blue'',
      embed_footer = now\<rparr>"

definition announcement_embed :: "challenge \<Rightarrow> role \<Rightarrow> pystr \<Rightarrow> embed" where
  "announcement_embed ch role now =
     \<lparr>embed_title = bell_glyph @ str '' New challenge created!'',
      embed_description =
        str ''**Challenge name:** '' @ c_name ch @ [10]
        @ str ''**Category:** '' @ c_category ch @ [10, 10]
        @ str ''Use `/ctf workon '' @ c_name ch @ str ''` or the button to join.''
        @ [10] @ mention role,
      embed_colour = str ''dark_gold'',
      embed_footer = now\<rparr>"

text \<open>
  The body of the inner loop, for one pulled task of the session \<open>ctf\<close>; it returns the
  session document with the reference to the task appended.
\<close>

definition ingest :: "'s env \<Rightarrow> ctf \<Rightarrow> challenge \<Rightarrow> ctf action" where
  "ingest env ctf pulled w0 =
     (let ch = pulled\<lparr>c_category := strip (title (ucd env) (c_category pulled))\<rparr> in
      if find_challenge (ucd env) ch w0 \<noteq> None then (Inr ctf, w0)
      else
       bnd (create_text_channel env
              (cross_glyph @ (str ''-'') @ sanitize_channel_name env (c_category ch @ (str ''-'') @ c_name ch))
              (find (\<lambda>c. cat_id c = guild_category ctf) (categories w0))
              (Some [\<lparr>ow_target = default_role w0, read_messages = Some False,
                      send_messages = None\<rparr>]))
       (\<lambda>challenge_channel.
       bnd (attr (url (ctf_credentials ctf))) (\<lambda>base.
       bnd (\<lambda>w. (Inr (challenge_embed ch base (now_str env (length (trace w)))), w))
       (\<lambda>info.
       bnd (send env (chan_id challenge_channel) [] (Some info) None) (\<lambda>message.
       bnd (pin env (msg_id message)) (\<lambda>_.
       bnd (\<lambda>w. (Inr (text_channel (announcements (ctf_channels ctf)) w), w))
       (\<lambda>announcements_channel.
       bnd (\<lambda>w. attr (find (\<lambda>r. role_id r = guild_role ctf) (roles w)) w) (\<lambda>role.
       bnd (\<lambda>w. (Inr (announcement_embed ch role (now_str env (length (trace w)))), w))
       (\<lambda>notice.
       bnd (attr announcements_channel) (\<lambda>target.
       bnd (send env (chan_id target) [] (Some notice) (Some (c_name ch))) (\<lambda>posted.
       bnd (insert_challenge env
              \<lparr>chal_oid = 0, chal_id = c_id ch, chal_name = c_name ch,
               chal_category = c_category ch, chal_channel = chan_id challenge_channel,
               solved = False, blooded = False, players = [],
               announcement = msg_id posted, solve_time = None,
               solve_announcement = None\<rparr>)
       (\<lambda>challenge_object_id.
       bnd (update_ctf env (ctf_oid ctf)
              (\<lambda>c. c\<lparr>challenges := challenges ctf @ [challenge_object_id]\<rparr>)) (\<lambda>_.
       return (ctf\<lparr>challenges := challenges ctf @ [challenge_object_id]\<rparr>))))))))))))) w0)"

fun ingest_all :: "'s env \<Rightarrow> ctf \<Rightarrow> challenge list \<Rightarrow> unit action" where
  "ingest_all env ctf [] = return ()"
| "ingest_all env ctf (ch # chs) = bnd (ingest env ctf ch) (\<lambda>ctf'. ingest_all env ctf' chs)"

text \<open>
  The outer loop over the sessions found; a session without a platform address ends the
  whole run (\<^verbatim>\<open>return\<close>).
\<close>

fun pull_sessions :: "'s env \<Rightarrow> ctf list \<Rightarrow> unit action" where
  "pull_sessions env [] = return ()"
| "pull_sessions env (ctf # rest) =
     (case url (ctf_credentials ctf) of
        None \<Rightarrow> return ()
      | Some u \<Rightarrow>
          bnd (call env (PullChallenges u)) (\<lambda>_.
          bnd (ingest_all env ctf
                 (pull_challenges env u (username (ctf_credentials ctf))
                    (password (ctf_credentials ctf)))) (\<lambda>_.
          pull_sessions env rest)))"

definition challenge_puller :: "'s env \<Rightarrow> unit action" where
  "challenge_puller env w =
     pull_sessions env (filter (\<lambda>c. \<not> ctf_ended c) (ctf_collection w)) w"



section \<open>\<^verbatim>\<open>Eruditus.scoreboard_updater\<close>\<close>

text \<open>One line of the table; the environment renders \<^verbatim>\<open>round(score, 4)\<close>.\<close>

definition scoreboard_row :: "'s env \<Rightarrow> pystr option \<Rightarrow> nat \<Rightarrow> nat \<Rightarrow> pystr \<times> 's \<Rightarrow> pystr" where
  "scoreboard_row env user width rank team =
     (if Some (fst team) = user then str ''+'' else str ''-'') @ str '' ''
     @ ljust 10 (str_nat rank) @ ljust width (fst team) @ str_round4 env (snd team) @ [10]"

text \<open>\<^verbatim>\<open>for rank, team in enumerate(teams, start=1): scoreboard += ...\<close>\<close>

fun scoreboard_rows ::
  "'s env \<Rightarrow> pystr option \<Rightarrow> nat \<Rightarrow> nat \<Rightarrow> (pystr \<times> 's) list \<Rightarrow> pystr" where
  "scoreboard_rows env user width rank [] = []"
| "scoreboard_rows env user width rank (team # teams) =
     scoreboard_row env user width rank team @ scoreboard_rows env user width (Suc rank) teams"

text \<open>\<^verbatim>\<open>max(len(team["name"]) for team in teams) + 10\<close>, for a list that is not empty.\<close>

definition name_field_width :: "(pystr \<times> 's) list \<Rightarrow> nat" where
  "name_field_width teams = fold max (map (\<lambda>team. length (fst team)) teams) 0 + 10"

definition scoreboard_message ::
  "'s env \<Rightarrow> pystr \<Rightarrow> pystr option \<Rightarrow> (pystr \<times> 's) list \<Rightarrow> pystr" where
  "scoreboard_message env now user teams =
     (let scoreboard = scoreboard_rows env user (name_field_width teams) 1 teams in
      if scoreboard \<noteq> []
      then str ''**Scoreboard as of '' @ now @ str ''**'' @ str ''```diff'' @ [10]
           @ str ''  '' @ ljust 10 (str ''Rank'') @ ljust (name_field_width teams) (str ''Team'')
           @ str ''Score'' @ [10] @ scoreboard @ str ''```''
      else str ''No solves yet, or platform isn't CTFd.'')"

text \<open>\<^verbatim>\<open>message.edit(content=...)\<close> on a message of the channel \<open>cid\<close>.\<close>

definition edit_message :: "'s env \<Rightarrow> nat \<Rightarrow> nat \<Rightarrow> pystr \<Rightarrow> unit action" where
  "edit_message env cid mid text =
     bnd (call env (Edit cid mid text)) (\<lambda>_ w.
       (Inr (),
        w\<lparr>channels :=
             map (\<lambda>c. if chan_id c = cid
                       then c\<lparr>messages :=
                               map (\<lambda>m. if msg_id m = mid then m\<lparr>content := text\<rparr> else m)
                                 (messages c)\<rparr>
                       else c)
               (channels w)\<rparr>))"

text \<open>
  The update of the scoreboard channel: the last message of the channel is edited; only
  when the channel has no message a new one is sent.
\<close>

definition post_scoreboard :: "'s env \<Rightarrow> nat \<Rightarrow> pystr \<Rightarrow> unit action" where
  "post_scoreboard env cid text =
     bnd (\<lambda>w. attr (text_channel cid w) w) (\<lambda>scoreboard_channel.
       if messages scoreboard_channel \<noteq> []
       then edit_message env (chan_id scoreboard_channel)
              (msg_id (last (messages scoreboard_channel))) text
       else bnd (send env (chan_id scoreboard_channel) text None None) (\<lambda>_. return ()))"

text \<open>The body of the loop, for one session.\<close>

definition update_scoreboard :: "'s env \<Rightarrow> ctf \<Rightarrow> unit action" where
  "update_scoreboard env ctf =
     (case url (ctf_credentials ctf) of
        None \<Rightarrow> return ()
      | Some ctfd_url \<Rightarrow>
          bnd (call env (GetScoreboard ctfd_url)) (\<lambda>_.
            case get_scoreboard env ctfd_url (username (ctf_credentials ctf))
                   (password (ctf_credentials ctf)) of
              InvalidURL \<Rightarrow> return ()
            | Teams teams \<Rightarrow>
                if teams = [] then return ()
                else bnd (\<lambda>w. (Inr (scoreboard_message env (now_str env (length (trace w)))
                                       (username (ctf_credentials ctf)) teams), w))
                       (post_scoreboard env (scoreboard (ctf_channels ctf)))))"

fun update_scoreboards :: "'s env \<Rightarrow> ctf list \<Rightarrow> unit action" where
  "update_scoreboards env [] = return ()"
| "update_scoreboards env (ctf # rest) =
     bnd (update_scoreboard env ctf) (\<lambda>_. update_scoreboards env rest)"

definition scoreboard_updater :: "'s env \<Rightarrow> unit action" where
  "scoreboard_updater env w =
     update_scoreboards env (filter (\<lambda>c. \<not> ctf_ended c) (ctf_collection w)) w"

text \<open>The messages of the text channel \<open>cid\<close>, oldest first.\<close>

definition chan_messages :: "nat \<Rightarrow> world \<Rightarrow> message list" where
  "chan_messages cid w = (case text_channel cid w of Some c \<Rightarrow> messages c | None \<Rightarrow> [])"

section \<open>Members, roles and the remaining guild calls\<close>

text \<open>A subscript on a document that \<^verbatim>\<open>find_one\<close> may have left \<^verbatim>\<open>None\<close>.\<close>

definition subscript :: "'a option \<Rightarrow> 'a action" where
  "subscript x = (case x of None \<Rightarrow> raise TypeError | Some v \<Rightarrow> return v)"

text \<open>
  \<^verbatim>\<open>channel.purge()\<close> with its default \<^verbatim>\<open>limit=100\<close>: the hundred most recent
  messages are deleted.
\<close>

definition purge :: "'s env \<Rightarrow> nat \<Rightarrow> unit action" where
  "purge env cid =
     bnd (call env (Purge cid)) (\<lambda>_ w.
       (Inr (),
        w\<lparr>channels :=
             map (\<lambda>c. if chan_id c = cid
                       then c\<lparr>messages := take (length (messages c) - 100) (messages c)\<rparr>
                       else c)
               (channels w)\<rparr>))"

definition fetch_member :: "nat \<Rightarrow> (nat \<times> nat list) action" where
  "fetch_member uid w =
     (case find (\<lambda>m. fst m = uid) (members w) of
        None \<Rightarrow> (Inl NotFound, w)
      | Some m \<Rightarrow> (Inr m, w))"

definition add_roles :: "'s env \<Rightarrow> nat \<Rightarrow> nat \<Rightarrow> unit action" where
  "add_roles env uid rid =
     bnd (call env (AddRoles uid rid)) (\<lambda>_ w.
       (Inr (),
        w\<lparr>members :=
             map (\<lambda>m. if fst m = uid
                       then (fst m, if rid \<in> set (snd m) then snd m else snd m @ [rid])
                       else m)
               (members w)\<rparr>))"

text \<open>
  \<^verbatim>\<open>async for user in event.users(): member = await guild.fetch_member(user.id);
  await member.add_roles(role)\<close>
\<close>

fun grant_role :: "'s env \<Rightarrow> role option \<Rightarrow> nat list \<Rightarrow> unit action" where
  "grant_role env role [] = return ()"
| "grant_role env role (u # us) =
     bnd (fetch_member u) (\<lambda>member.
     bnd (attr role) (\<lambda>r.
     bnd (add_roles env (fst member) (role_id r)) (\<lambda>_.
     grant_role env role us)))"

definition edit_category :: "'s env \<Rightarrow> nat \<Rightarrow> pystr \<Rightarrow> unit action" where
  "edit_category env cid name =
     bnd (call env (EditCategory cid name)) (\<lambda>_ w.
       (Inr (),
        w\<lparr>categories :=
             map (\<lambda>c. if cat_id c = cid then c\<lparr>cat_name := name\<rparr> else c) (categories w)\<rparr>))"

text \<open>\<^verbatim>\<open>channel.permissions_for(guild.default_role).read_messages\<close>\<close>

definition everyone_can_read :: "world \<Rightarrow> channel \<Rightarrow> bool" where
  "everyone_can_read w ch =
     (case find (\<lambda>ow. ow_target ow = default_role w) (chan_overwrites ch) of
        None \<Rightarrow> everyone_reads w
      | Some ow \<Rightarrow> (case read_messages ow of None \<Rightarrow> everyone_reads w | Some b \<Rightarrow> b))"

text \<open>The search for a public channel: the last readable one, or the first named general.\<close>

fun find_public :: "world \<Rightarrow> channel option \<Rightarrow> channel list \<Rightarrow> channel option" where
  "find_public w public_channel [] = public_channel"
| "find_public w public_channel (ch # chs) =
     (if everyone_can_read w ch
      then (if contains (chan_name ch) (str ''general'') then Some ch
            else find_public w (Some ch) chs)
      else find_public w public_channel chs)"

section \<open>\<^verbatim>\<open>Eruditus.ctf_reminder\<close>\<close>

text \<open>\<^verbatim>\<open>str(remaining_time).split('.')[0]\<close>\<close>

definition remaining_str :: "int \<Rightarrow> pystr" where
  "remaining_str remaining =
     (case split (str_timedelta remaining) (str ''.'') of [] \<Rightarrow> [] | p # _ \<Rightarrow> p)"

definition credentials_message :: "pystr \<Rightarrow> pystr \<Rightarrow> pystr \<Rightarrow> pystr" where
  "credentials_message u team pwd =
     (str ''```yaml'') @ [10]
     @ (str ''CTF platform: '') @ u @ [10]
     @ (str ''Username: '') @ team @ [10]
     @ (str ''Password: '') @ pwd @ [10]
     @ (str ''```'')"

definition too_few_notice :: "'s env \<Rightarrow> pystr \<Rightarrow> int \<Rightarrow> pystr" where
  "too_few_notice env name remaining =
     bell_glyph @ (str '' CTF `'') @ name @ (str ''` starting in `'') @ remaining_str remaining @ (str ''`.'')
     @ [10]
     @ (str ''This CTF was not created automatically because less than '')
     @ str_int (MIN_PLAYERS env) @ (str '' players were willing to participate.'') @ [10]
     @ (str ''You can still create it manually using `/ctf createctf`.'')"

definition starting_soon :: "pystr \<Rightarrow> int \<Rightarrow> pystr" where
  "starting_soon name remaining =
     bell_glyph @ (str '' CTF `'') @ name @ (str ''` starting in `'') @ remaining_str remaining @ (str ''`.'')
     @ [10]
     @ (str ''@here you can still use `/ctf join` to participate in case '')
     @ (str ''you forgot to hit the `Interested` button of the event.'')"

text \<open>The credentials step taken when the registration answer holds \<open>success\<close>.\<close>

definition post_credentials :: "'s env \<Rightarrow> ctf option \<Rightarrow> pystr \<Rightarrow> pystr \<Rightarrow> unit action" where
  "post_credentials env ctf u pwd =
     bnd (subscript ctf) (\<lambda>c.
     bnd (update_ctf env (ctf_oid c)
            (\<lambda>d. d\<lparr>ctf_credentials :=
                      \<lparr>url = Some u, username = Some (TEAM_NAME env), password = Some pwd\<rparr>\<rparr>))
     (\<lambda>_.
     bnd (\<lambda>w. attr (text_channel (credentials_ch (ctf_channels c)) w) w) (\<lambda>creds_channel.
     bnd (purge env (chan_id creds_channel)) (\<lambda>_.
     bnd (send env (chan_id creds_channel) (credentials_message u (TEAM_NAME env) pwd)
            None None) (\<lambda>_.
     return ())))))"

text \<open>The body of the loop, for one calendar event; times are in microseconds.\<close>

definition remind :: "'s env \<Rightarrow> int \<Rightarrow> channel option \<Rightarrow> scheduled_event \<Rightarrow> unit action" where
  "remind env local_time public_channel ev =
     (if ev_status ev \<noteq> scheduled then return ()
      else if \<not> (start_time ev - local_time < 3600000000) then return ()
      else if user_count ev < MIN_PLAYERS env then
        (case public_channel of
           None \<Rightarrow> return ()
         | Some p \<Rightarrow>
             bnd (send env (chan_id p)
                    (too_few_notice env (ev_name ev) (start_time ev - local_time)) None None)
               (\<lambda>_. return ()))
      else
        bnd (create_ctf env (ev_name ev) False) (\<lambda>created.
        bnd (\<lambda>w. (Inr (case created of None \<Rightarrow> find_ctf (ucd env) (ev_name ev) w | Some c \<Rightarrow> Some c), w))
        (\<lambda>ctf.
        bnd (case split (location ev) ((str '' '') @ em_dash @ (str '' '')) of
               _ # u # _ \<Rightarrow> return u
             | _ \<Rightarrow> raise IndexError) (\<lambda>u.
        bnd (\<lambda>w. (Inr (urandom_hex env (length (trace w))), w)) (\<lambda>pwd.
        bnd (call env (Register u)) (\<lambda>_.
        bnd (if (str ''success'') \<in> set (register_to_ctfd env u (TEAM_NAME env) pwd (TEAM_EMAIL env))
             then post_credentials env ctf u pwd
             else return ()) (\<lambda>_.
        bnd (subscript ctf) (\<lambda>c.
        bnd (\<lambda>w. (Inr (find (\<lambda>r. role_id r = guild_role c) (roles w)), w)) (\<lambda>role.
        bnd (grant_role env role (ev_users ev)) (\<lambda>_.
        case public_channel of
          None \<Rightarrow> return ()
        | Some p \<Rightarrow>
            bnd (send env (chan_id p)
                   (starting_soon (ctf_name c) (start_time ev - local_time)) None None)
              (\<lambda>_. return ())))))))))))"

fun remind_all :: "'s env \<Rightarrow> int \<Rightarrow> channel option \<Rightarrow> scheduled_event list \<Rightarrow> unit action" where
  "remind_all env local_time public_channel [] = return ()"
| "remind_all env local_time public_channel (ev # evs) =
     bnd (remind env local_time public_channel ev)
       (\<lambda>_. remind_all env local_time public_channel evs)"

definition ctf_reminder :: "'s env \<Rightarrow> int \<Rightarrow> unit action" where
  "ctf_reminder env local_time w =
     remind_all env local_time
       (find_public w None (filter (\<lambda>c. chan_type c = TextChannel) (channels w)))
       (scheduled_events w) w"

section \<open>\<^verbatim>\<open>Eruditus.on_scheduled_event_update\<close>\<close>

definition work_glyphs :: pystr where
  "work_glyphs =
     [9876, 65039, 32, 128298, 32, 128544, 32, 128296, 32, 9874, 65039]"

text \<open>\<^verbatim>\<open>discord.utils.get(guild.text_channels, category_id=..., name="general")\<close>\<close>

definition general_channel :: "nat \<Rightarrow> world \<Rightarrow> channel option" where
  "general_channel cat w =
     find (\<lambda>c. category_id c = Some cat \<and> chan_name c = (str ''general''))
       (filter (\<lambda>c. chan_type c = TextChannel) (channels w))"

definition event_started :: "'s env \<Rightarrow> scheduled_event \<Rightarrow> unit action" where
  "event_started env after =
     bnd (create_ctf env (ev_name after) True) (\<lambda>created.
     bnd (\<lambda>w. (Inr (case created of None \<Rightarrow> find_ctf (ucd env) (ev_name after) w | Some c \<Rightarrow> Some c), w))
     (\<lambda>ctf.
     bnd (subscript ctf) (\<lambda>c.
     bnd (\<lambda>w. (Inr (find (\<lambda>r. role_id r = guild_role c) (roles w)), w)) (\<lambda>role.
     bnd (grant_role env role (ev_users after)) (\<lambda>_.
     bnd (\<lambda>w. attr (find (\<lambda>k. cat_id k = guild_category c) (categories w)) w)
     (\<lambda>category_channel.
     bnd (edit_category env (cat_id category_channel)
            (replace (cat_name category_channel) alarm_clock red_circle)) (\<lambda>_.
     bnd (\<lambda>w. attr (general_channel (guild_category c) w) w) (\<lambda>ctf_general_channel.
     bnd (attr role) (\<lambda>r.
     bnd (send env (chan_id ctf_general_channel)
            (mention r @ (str '' has started!'') @ [10] @ (str ''Get to work now '') @ work_glyphs)
            None None) (\<lambda>_.
     return ()))))))))))"

definition event_ended :: "'s env \<Rightarrow> scheduled_event \<Rightarrow> unit action" where
  "event_ended env after w0 =
     (case find_ctf (ucd env) (ev_name after) w0 of
        None \<Rightarrow> (Inr (), w0)
      | Some c \<Rightarrow>
         bnd (\<lambda>w. attr (find (\<lambda>k. cat_id k = guild_category c) (categories w)) w)
         (\<lambda>category_channel.
         bnd (edit_category env (cat_id category_channel)
                (replace (cat_name category_channel) red_circle chequered_flag)) (\<lambda>_.
         bnd (\<lambda>w. (Inr (find (\<lambda>r. role_id r = guild_role c) (roles w)), w)) (\<lambda>role.
         bnd (\<lambda>w. attr (general_channel (guild_category c) w) w) (\<lambda>ctf_general_channel.
         bnd (attr role) (\<lambda>r.
         bnd (send env (chan_id ctf_general_channel)
                (chequered_flag @ (str '' '') @ mention r @ (str '' time is up! The CTF has ended.''))
                None None) (\<lambda>_.
         update_ctf env (ctf_oid c) (\<lambda>d. d\<lparr>ctf_ended := True\<rparr>))))))) w0)"

definition on_scheduled_event_update ::
  "'s env \<Rightarrow> scheduled_event \<Rightarrow> scheduled_event \<Rightarrow> unit action" where
  "on_scheduled_event_update env before after =
     (if ev_status before = scheduled \<and> ev_status after = active then event_started env after
      else if ev_status before = active \<and> ev_status after = ended then event_ended env after
      else return ())"


section \<open>The ended flag of the stored sessions\<close>

text \<open>The stored sessions in order, each with its id and its ended flag.\<close>

definition flags :: "world \<Rightarrow> (nat \<times> bool) list" where
  "flags w = map (\<lambda>c. (ctf_oid c, ctf_ended c)) (ctf_collection w)"

text \<open>
  From \<open>w\<close> to \<open>w'\<close> no stored session changed its flag, and every session added is not
  ended.
\<close>

definition ended_same :: "world \<Rightarrow> world \<Rightarrow> bool" where
  "ended_same w w' =
     (prefix (flags w) (flags w') \<and> list_all (\<lambda>p. \<not> snd p) (drop (length (flags w)) (flags w')))"

text \<open>From \<open>w\<close> to \<open>w'\<close> no session was added or removed and no ended flag was cleared.\<close>

definition ended_mono :: "world \<Rightarrow> world \<Rightarrow> bool" where
  "ended_mono w w' =
     list_all2 (\<lambda>p q. fst p = fst q \<and> (snd p \<longrightarrow> snd q)) (flags w) (flags w')"

text \<open>An action that keeps the flags, whatever its outcome.\<close>

definition keeps :: "'a action \<Rightarrow> bool" where
  "keeps m = (\<forall>w. ended_same w (snd (m w)))"

text \<open>An action that clears no flag and neither adds nor removes a session.\<close>

definition no_clear :: "'a action \<Rightarrow> bool" where
  "no_clear m = (\<forall>w. ended_mono w (snd (m w)))"

section \<open>\<^verbatim>\<open>Eruditus.create_upcoming_events\<close>\<close>

definition people_glyph :: pystr where
  "people_glyph = [128101]"

definition money_glyph :: pystr where
  "money_glyph = [128176]"

definition gear_glyph :: pystr where
  "gear_glyph = [9881, 65039]"

definition target_glyph :: pystr where
  "target_glyph = [127919]"

definition event_description :: "event_info \<Rightarrow> pystr" where
  "event_description info =
     ei_description info @ [10, 10]
     @ people_glyph @ (str '' **Organizers**'') @ [10] @ join (str '', '') (ei_organizers info)
     @ [10, 10]
     @ money_glyph @ (str '' **Prizes**'') @ [10] @ ei_prizes info @ [10, 10]
     @ gear_glyph @ (str '' **Format**'') @ [10] @ (str '' '') @ ei_location info @ (str '' '')
     @ ei_format info @ [10, 10]
     @ target_glyph @ (str '' **Weight**'') @ [10] @ ei_weight info"

text \<open>
  The body of the loop, for one event id of the catalog; \<open>known\<close> is the dictionary from
  event names to ids built before the loop (a later entry of the same name wins).
\<close>

definition upcoming_event :: "'s env \<Rightarrow> int \<Rightarrow> (pystr \<times> nat) list \<Rightarrow> nat \<Rightarrow> unit action" where
  "upcoming_event env local_time known eid =
     (case scrape_event_info env eid of
        None \<Rightarrow> return ()
      | Some info \<Rightarrow>
          if ctftime_date_to_datetime env (ei_start info) > local_time + 604800000000
          then return ()
          else
            bnd (call env (HttpGet (ei_logo info))) (\<lambda>_.
            bnd (\<lambda>w. (Inr (\<lambda>old. old\<lparr>
                    ev_name := ei_name info,
                    ev_description := truncate_text env (event_description info) 1000,
                    start_time := ctftime_date_to_datetime env (ei_start info),
                    end_time := ctftime_date_to_datetime env (ei_end info),
                    ev_image := fetch_image env (ei_logo info),
                    location := CTFTIME_URL env @ (str ''/event/'') @ str_nat (ei_id info)
                                @ (str '' '') @ em_dash @ (str '' '') @ ei_website info\<rparr>), w))
            (\<lambda>parameters.
              case map_of (rev known) (ei_name info) of
                Some sid \<Rightarrow>
                  bnd (\<lambda>w. attr (find (\<lambda>e. ev_id e = sid) (scheduled_events w)) w) (\<lambda>_.
                  bnd (call env (EditScheduledEvent sid (ei_name info))) (\<lambda>_ w.
                    (Inr (),
                     w\<lparr>scheduled_events :=
                          map (\<lambda>e. if ev_id e = sid then parameters e else e)
                            (scheduled_events w)\<rparr>)))
              | None \<Rightarrow>
                  bnd (call env (CreateScheduledEvent (ei_name info))) (\<lambda>_ w.
                    (Inr (),
                     w\<lparr>scheduled_events := scheduled_events w @
                          [parameters \<lparr>ev_id = next_id w, ev_name = [], ev_description = [],
                             ev_status = scheduled, start_time = 0, end_time = 0,
                             ev_image = [], user_count = 0, location = [],
                             ev_users = []\<rparr>],
                        next_id := Suc (next_id w)\<rparr>)))))"

fun upcoming_events :: "'s env \<Rightarrow> int \<Rightarrow> (pystr \<times> nat) list \<Rightarrow> nat list \<Rightarrow> unit action" where
  "upcoming_events env local_time known [] = return ()"
| "upcoming_events env local_time known (eid # eids) =
     bnd (upcoming_event env local_time known eid)
       (\<lambda>_. upcoming_events env local_time known eids)"

definition create_upcoming_events :: "'s env \<Rightarrow> int \<Rightarrow> unit action" where
  "create_upcoming_events env local_time w =
     bnd (call env (HttpGet (CTFTIME_URL env @ (str ''/api/v1/events/'')))) (\<lambda>_.
       case list_events env of
         None \<Rightarrow> return ()
       | Some eids \<Rightarrow>
           upcoming_events env local_time
             (map (\<lambda>e. (ev_name e, ev_id e)) (scheduled_events w)) eids) w"

section \<open>Example inputs\<close>

definition task1 :: challenge where
  "task1 = \<lparr>c_id = (str ''42''), c_name = (str ''baby-pwn''), c_category = (str '' pwn ''), c_description = [],
     c_tags = [], c_files = [], c_value = 100\<rparr>"

definition task2 :: challenge where
  "task2 = \<lparr>c_id = (str ''42''), c_name = (str ''Baby-Pwn''), c_category = (str ''Pwn''), c_description = [],
     c_tags = [], c_files = [], c_value = 100\<rparr>"

text \<open>The tables restricted to ASCII; the example inputs are ASCII.\<close>

definition ascii_lower :: "nat \<Rightarrow> nat" where
  "ascii_lower c = (if 65 \<le> c \<and> c \<le> 90 then c + 32 else c)"

definition ascii_tables :: unicode where
  "ascii_tables =
     \<lparr>to_title = (\<lambda>c. [if 97 \<le> c \<and> c \<le> 122 then c - 32 else c]),
      lower_in = (\<lambda>before c after. [ascii_lower c]),
      is_cased = (\<lambda>c. (65 \<le> c \<and> c \<le> 90) \<or> (97 \<le> c \<and> c \<le> 122)),
      caseless = (\<lambda>a b. ascii_lower a = ascii_lower b)\<rparr>"

definition env0 :: "int env" where
  "env0 = \<lparr>ucd = ascii_tables, str_round4 = str_int, MIN_PLAYERS = 5, TEAM_NAME = (str ''team''), TEAM_EMAIL = (str ''team@example.org''),
     CTFTIME_URL = (str ''https://ctftime.org''), truncate_text = (\<lambda>text maxlen. take maxlen text),
     ctftime_date_to_datetime = (\<lambda>_. 0), list_events = Some [],
     scrape_event_info = (\<lambda>_. None), fetch_image = (\<lambda>_. []),
     derive_colour = (\<lambda>_. 0), sanitize_channel_name = map ascii_lower,
     register_to_ctfd = (\<lambda>_ _ _ _. [(str ''success'')]),
     pull_challenges = (\<lambda>_ _ _. [task1]),
     get_scoreboard = (\<lambda>_ _ _. Teams [((str ''team''), 100)]),
     urandom_hex = (\<lambda>_. (str ''00'')), now_str = (\<lambda>_. (str ''now'')), api_ok = (\<lambda>_. True)\<rparr>"

definition empty_world :: world where
  "empty_world = \<lparr>default_role = 0, everyone_reads = True, roles = [], categories = [],
     channels = [], members = [], scheduled_events = [], next_id = 1, ctf_collection = [],
     challenge_collection = [], next_oid = 1, trace = []\<rparr>"

text \<open>Two running sessions: the first has no credentials yet, the second has.\<close>

definition ctf_A :: ctf where
  "ctf_A = \<lparr>ctf_oid = 1, ctf_name = (str ''A''), archived = False, ctf_ended = False,
     ctf_credentials = \<lparr>url = None, username = None, password = None\<rparr>, challenges = [],
     guild_role = 10, guild_category = 11,
     ctf_channels = \<lparr>announcements = 12, credentials_ch = 13, scoreboard = 14, solves = 15,
       notes_ch = 16, bot_cmds = 17\<rparr>\<rparr>"

definition ctf_B :: ctf where
  "ctf_B = \<lparr>ctf_oid = 2, ctf_name = (str ''B''), archived = False, ctf_ended = False,
     ctf_credentials = \<lparr>url = Some (str ''https://b.example''), username = Some (str ''team''),
       password = Some (str ''00'')\<rparr>, challenges = [],
     guild_role = 20, guild_category = 21,
     ctf_channels = \<lparr>announcements = 22, credentials_ch = 23, scoreboard = 24, solves = 25,
       notes_ch = 26, bot_cmds = 27\<rparr>\<rparr>"

definition world_two :: world where
  "world_two = \<lparr>default_role = 0, everyone_reads = True,
     roles = [\<lparr>role_id = 10, role_name = (str ''A''), role_colour = 0, mentionable = True\<rparr>,
              \<lparr>role_id = 20, role_name = (str ''B''), role_colour = 0, mentionable = True\<rparr>],
     categories = [\<lparr>cat_id = 11, cat_name = red_circle @ (str '' A''), cat_overwrites = []\<rparr>,
                   \<lparr>cat_id = 21, cat_name = red_circle @ (str '' B''), cat_overwrites = []\<rparr>],
     channels = [\<lparr>chan_id = 12, chan_name = megaphone_glyph @ (str ''-announcements''),
                   chan_type = TextChannel, category_id = Some 11, chan_overwrites = [],
                   messages = []\<rparr>,
                 \<lparr>chan_id = 22, chan_name = megaphone_glyph @ (str ''-announcements''),
                   chan_type = TextChannel, category_id = Some 21, chan_overwrites = [],
                   messages = []\<rparr>],
     members = [], scheduled_events = [], next_id = 100,
     ctf_collection = [ctf_A, ctf_B], challenge_collection = [], next_oid = 3, trace = []\<rparr>"

text \<open>The record that the first ingestion of \<open>task1\<close> for session B stores.\<close>

definition doc1 :: challenge_doc where
  "doc1 = \<lparr>chal_oid = 3, chal_id = (str ''42''), chal_name = (str ''baby-pwn''), chal_category = (str ''Pwn''),
     chal_channel = 100, solved = False, blooded = False, players = [], announcement = 102,
     solve_time = None, solve_announcement = None\<rparr>"

text \<open>An outside world in which the eleventh call, the insert of the session record, fails.\<close>

definition env_insert_fails :: "int env" where
  "env_insert_fails = env0\<lparr>api_ok := (\<lambda>n. n < 10)\<rparr>"

definition ows_category :: "overwrite list" where
  "ows_category = [\<lparr>ow_target = 0, read_messages = Some False, send_messages = None\<rparr>,
                   \<lparr>ow_target = 1, read_messages = Some True, send_messages = None\<rparr>]"

definition ows_readonly :: "overwrite list" where
  "ows_readonly = [\<lparr>ow_target = 0, read_messages = Some False, send_messages = None\<rparr>,
                   \<lparr>ow_target = 1, read_messages = Some True, send_messages = Some False\<rparr>]"

definition chan0 :: "nat \<Rightarrow> pystr \<Rightarrow> channel_type \<Rightarrow> overwrite list \<Rightarrow> channel" where
  "chan0 i name ty ows = \<lparr>chan_id = i, chan_name = name, chan_type = ty, category_id = Some 2,
     chan_overwrites = ows, messages = []\<rparr>"

text \<open>The guild that a first creation of session \<open>foo\<close> leaves when that insert fails.\<close>

definition world_partial :: world where
  "world_partial = \<lparr>default_role = 0, everyone_reads = True,
     roles = [\<lparr>role_id = 1, role_name = (str ''foo''), role_colour = 0, mentionable = True\<rparr>],
     categories = [\<lparr>cat_id = 2, cat_name = red_circle @ (str '' foo''), cat_overwrites = ows_category\<rparr>],
     channels = [chan0 3 (str ''general'') TextChannel ows_category,
                 chan0 4 (str ''general'') VoiceChannel ows_category,
                 chan0 5 (key_glyph @ (str ''-credentials'')) TextChannel ows_readonly,
                 chan0 6 (memo_glyph @ (str ''-notes'')) TextChannel ows_readonly,
                 chan0 7 (robot_glyph @ (str ''-bot-cmds'')) TextChannel ows_readonly,
                 chan0 8 (megaphone_glyph @ (str ''-announcements'')) TextChannel ows_readonly,
                 chan0 9 (party_glyph @ (str ''-solves'')) TextChannel ows_readonly,
                 chan0 10 (chart_glyph @ (str ''-scoreboard'')) TextChannel ows_readonly],
     members = [], scheduled_events = [], next_id = 11, ctf_collection = [],
     challenge_collection = [], next_oid = 1,
     trace = [CreateRole (str ''foo''), CreateCategory (red_circle @ (str '' foo'')),
              CreateTextChannel (str ''general'') (Some 2), CreateVoiceChannel (str ''general'') (Some 2),
              CreateTextChannel (key_glyph @ (str ''-credentials'')) (Some 2),
              CreateTextChannel (memo_glyph @ (str ''-notes'')) (Some 2),
              CreateTextChannel (robot_glyph @ (str ''-bot-cmds'')) (Some 2),
              CreateTextChannel (megaphone_glyph @ (str ''-announcements'')) (Some 2),
              CreateTextChannel (party_glyph @ (str ''-solves'')) (Some 2),
              CreateTextChannel (chart_glyph @ (str ''-scoreboard'')) (Some 2)]\<rparr>"

text \<open>The guild of \<open>world_two\<close> with the scoreboard channel of session B, still empty.\<close>

definition board_channel :: channel where
  "board_channel = \<lparr>chan_id = 24, chan_name = chart_glyph @ (str ''-scoreboard''),
     chan_type = TextChannel, category_id = Some 21, chan_overwrites = [], messages = []\<rparr>"

definition world_board :: world where
  "world_board = world_two\<lparr>channels := channels world_two @ [board_channel]\<rparr>"

definition env_no_teams :: "int env" where
  "env_no_teams = env0\<lparr>get_scoreboard := (\<lambda>_ _ _. Teams [])\<rparr>"

text \<open>The credentials channel of session B with two stale postings.\<close>

definition creds_channel :: channel where
  "creds_channel = \<lparr>chan_id = 23, chan_name = key_glyph @ (str ''-credentials''),
     chan_type = TextChannel, category_id = Some 21, chan_overwrites = [],
     messages = [\<lparr>msg_id = 30, content = (str ''old''), msg_embed = None, msg_view = None,
                   pinned = False\<rparr>,
                 \<lparr>msg_id = 31, content = (str ''older''), msg_embed = None, msg_view = None,
                   pinned = True\<rparr>]\<rparr>"

definition world_creds :: world where
  "world_creds = world_two\<lparr>channels := channels world_two @ [creds_channel]\<rparr>"

text \<open>The credentials channel of session B holding 101 messages, oldest first.\<close>

definition crowded_channel :: channel where
  "crowded_channel = creds_channel\<lparr>messages :=
     map (\<lambda>i. \<lparr>msg_id = 1000 + i, content = (if i = 0 then str ''oldest'' else str ''stale''),
               msg_embed = None, msg_view = None, pinned = False\<rparr>) [0..<101]\<rparr>"

definition world_crowded :: world where
  "world_crowded = world_two\<lparr>channels := channels world_two @ [crowded_channel]\<rparr>"

text \<open>
  The scenario of the specification: the event \<open>FooCTF 2024\<close> starts in 45 minutes (the
  local time being 0), twelve users are interested, and \<open>MIN_PLAYERS\<close> is 5.
\<close>

definition lobby :: channel where
  "lobby = \<lparr>chan_id = 50, chan_name = (str ''general''), chan_type = TextChannel,
     category_id = None, chan_overwrites = [], messages = []\<rparr>"

definition foo_users :: "nat list" where
  "foo_users = [101, 102, 103, 104, 105, 106, 107, 108, 109, 110, 111, 112]"

definition ev_foo :: scheduled_event where
  "ev_foo = \<lparr>ev_id = 60, ev_name = (str ''FooCTF 2024''), ev_description = [],
     ev_status = scheduled, start_time = 2700000000, end_time = 175500000000,
     ev_image = [], user_count = 12,
     location = (str ''https://ctftime.org/event/1 '') @ em_dash @ (str '' https://foo.example''),
     ev_users = foo_users\<rparr>"

definition world_foo :: world where
  "world_foo = \<lparr>default_role = 0, everyone_reads = True, roles = [], categories = [],
     channels = [lobby], members = map (\<lambda>uid. (uid, [])) foo_users,
     scheduled_events = [ev_foo], next_id = 200, ctf_collection = [],
     challenge_collection = [], next_oid = 1, trace = []\<rparr>"

definition ctf_foo :: ctf where
  "ctf_foo = \<lparr>ctf_oid = 1, ctf_name = (str ''FooCTF 2024''), archived = False, ctf_ended = False,
     ctf_credentials = \<lparr>url = None, username = None, password = None\<rparr>, challenges = [],
     guild_role = 200, guild_category = 201,
     ctf_channels = \<lparr>announcements = 207, credentials_ch = 204, scoreboard = 209,
       solves = 208, notes_ch = 205, bot_cmds = 206\<rparr>\<rparr>"

definition ows_foo :: "bool option \<Rightarrow> overwrite list" where
  "ows_foo s = [\<lparr>ow_target = 0, read_messages = Some False, send_messages = None\<rparr>,
                \<lparr>ow_target = 200, read_messages = Some True, send_messages = s\<rparr>]"

definition chan_foo :: "nat \<Rightarrow> pystr \<Rightarrow> channel_type \<Rightarrow> bool option \<Rightarrow> channel" where
  "chan_foo i name ty s = \<lparr>chan_id = i, chan_name = name, chan_type = ty,
     category_id = Some 201, chan_overwrites = ows_foo s, messages = []\<rparr>"

text \<open>The world after the session of the event was created, not yet live.\<close>

definition world_foo_created :: world where
  "world_foo_created = world_foo\<lparr>
     roles := [\<lparr>role_id = 200, role_name = (str ''FooCTF 2024''), role_colour = 0,
                mentionable = True\<rparr>],
     categories := [\<lparr>cat_id = 201, cat_name = alarm_clock @ (str '' FooCTF 2024''),
                     cat_overwrites = ows_foo None\<rparr>],
     channels := [lobby,
                  chan_foo 202 (str ''general'') TextChannel None,
                  chan_foo 203 (str ''general'') VoiceChannel None,
                  chan_foo 204 (key_glyph @ (str ''-credentials'')) TextChannel (Some False),
                  chan_foo 205 (memo_glyph @ (str ''-notes'')) TextChannel (Some False),
                  chan_foo 206 (robot_glyph @ (str ''-bot-cmds'')) TextChannel (Some False),
                  chan_foo 207 (megaphone_glyph @ (str ''-announcements'')) TextChannel (Some False),
                  chan_foo 208 (party_glyph @ (str ''-solves'')) TextChannel (Some False),
                  chan_foo 209 (chart_glyph @ (str ''-scoreboard'')) TextChannel (Some False)],
     next_id := 210, ctf_collection := [ctf_foo], next_oid := 2,
     trace := [CreateRole (str ''FooCTF 2024''), CreateCategory (alarm_clock @ (str '' FooCTF 2024'')),
               CreateTextChannel (str ''general'') (Some 201),
               CreateVoiceChannel (str ''general'') (Some 201),
               CreateTextChannel (key_glyph @ (str ''-credentials'')) (Some 201),
               CreateTextChannel (memo_glyph @ (str ''-notes'')) (Some 201),
               CreateTextChannel (robot_glyph @ (str ''-bot-cmds'')) (Some 201),
               CreateTextChannel (megaphone_glyph @ (str ''-announcements'')) (Some 201),
               CreateTextChannel (party_glyph @ (str ''-solves'')) (Some 201),
               CreateTextChannel (chart_glyph @ (str ''-scoreboard'')) (Some 201),
               InsertCtf (str ''FooCTF 2024'')]\<rparr>"

text \<open>The event of the scenario once it is active and once it has ended.\<close>

definition ev_foo_active :: scheduled_event where
  "ev_foo_active = ev_foo\<lparr>ev_status := active\<rparr>"

definition ev_foo_ended :: scheduled_event where
  "ev_foo_ended = ev_foo\<lparr>ev_status := ended\<rparr>"

text \<open>The world of the scenario with its one session marked as ended.\<close>

definition world_foo_over :: world where
  "world_foo_over = world_foo_created\<lparr>ctf_collection := [ctf_foo\<lparr>ctf_ended := True\<rparr>]\<rparr>"

text \<open>
  The world of the scenario once the session is live (its category shows the red circle),
  with a second session in the store.
\<close>

definition world_foo_live :: world where
  "world_foo_live = world_foo_created\<lparr>
     categories := [\<lparr>cat_id = 201, cat_name = red_circle @ (str '' FooCTF 2024''),
                     cat_overwrites = ows_foo None\<rparr>],
     ctf_collection := [ctf_foo, ctf_B]\<rparr>"

section \<open>Properties\<close>

lemmas act_defs = bnd_def return_def raise_def call_def attr_def create_role_def
  create_category_def new_channel_def create_text_channel_def create_voice_channel_def
  insert_ctf_def send_def pin_def update_ctf_def insert_challenge_def find_ctf_def
  find_challenge_def text_channel_def

lemmas embed_defs = challenge_embed_def announcement_embed_def mention_def

lemmas example_defs = ascii_lower_def ascii_tables_def task1_def task2_def env0_def
  empty_world_def ctf_A_def ctf_B_def world_two_def doc1_def env_insert_fails_def
  ows_category_def ows_readonly_def chan0_def world_partial_def board_channel_def
  world_board_def env_no_teams_def creds_channel_def world_creds_def lobby_def foo_users_def
  ev_foo_def world_foo_def ctf_foo_def ows_foo_def chan_foo_def world_foo_created_def
  ev_foo_active_def ev_foo_ended_def world_foo_over_def crowded_channel_def
  world_crowded_def world_foo_live_def

lemmas glyph_defs = alarm_clock_def red_circle_def chequered_flag_def key_glyph_def
  memo_glyph_def robot_glyph_def megaphone_glyph_def party_glyph_def chart_glyph_def
  cross_glyph_def bell_glyph_def em_dash_def

text \<open>
  C3. The claim: a session without a platform address does not keep the task puller from
  the sessions after it in the same run. On the code the run ends at that session: with
  session A (no address) before session B (address known, one new task on the platform)
  the run changes nothing, although B on its own would have its task ingested.
\<close>

theorem challenge_puller_unset_url_ends_run:
  "challenge_puller env0 world_two = (Inr (), world_two) \<and>
   length (challenge_collection (snd (pull_sessions env0 [ctf_B] world_two))) = 1"
  by (simp add: challenge_puller_def ingest_def embed_defs example_defs act_defs Let_def str_defs)

lemma regex_ci_match_caseless:
  "list_all2 (caseless tab) pat s \<Longrightarrow> regex_ci_match tab pat s"
  by (simp add: regex_ci_match_def)

lemma first_ingest_store:
  "challenge_collection (snd (ingest env0 ctf_B task1 world_two)) = [doc1]"
  by (simp add: ingest_def embed_defs example_defs act_defs Let_def str_defs doc1_def)

text \<open>
  C2. Ingesting a task descriptor again is a no-op: when the store holds a task with the
  same external id, whose name equals the descriptor's name up to letter case, and whose
  category equals, up to letter case, the descriptor's category title-cased and trimmed,
  the loop body returns at once and leaves store, guild and effects as they were; so does
  the loop over a pulled list that holds only this descriptor. Letter case is the one of
  the query engine, white space the one of \<^verbatim>\<open>str.strip\<close>.
\<close>

theorem reingest_is_noop:
  assumes "d \<in> set (challenge_collection w)"
    and "chal_id d = c_id ch"
    and "list_all2 (caseless (ucd env)) (c_name ch) (chal_name d)"
    and "list_all2 (caseless (ucd env)) (strip (title (ucd env) (c_category ch)))
           (chal_category d)"
  shows "ingest env ctf ch w = (Inr ctf, w) \<and> ingest_all env ctf [ch] w = (Inr (), w)"
proof -
  have "find_challenge (ucd env) (ch\<lparr>c_category := strip (title (ucd env) (c_category ch))\<rparr>) w
        \<noteq> None"
    using assms unfolding find_challenge_def find_None_iff
    by (auto intro!: bexI [of _ d] regex_ci_match_caseless)
  then have "ingest env ctf ch w = (Inr ctf, w)"
    by (simp add: ingest_def Let_def)
  then show ?thesis
    by (simp add: bnd_def return_def)
qed

text \<open>
  The scenario of the specification: \<open>{id: "42", name: "baby-pwn", category: " pwn "}\<close>
  first, \<open>{id: "42", name: "Baby-Pwn", category: "Pwn"}\<close> second; and the second
  descriptor once more with the category \<^verbatim>\<open>"pwn\x1f"\<close>, whose last character is white
  space for \<^verbatim>\<open>str.strip\<close>.
\<close>

theorem reingest_is_noop_witness:
  "challenge_collection (snd (ingest env0 ctf_B task1 world_two)) = [doc1]
   \<and> ingest env0 ctf_B task2 (snd (ingest env0 ctf_B task1 world_two))
       = (Inr ctf_B, snd (ingest env0 ctf_B task1 world_two))
   \<and> ingest_all env0 ctf_B [task2] (snd (ingest env0 ctf_B task1 world_two))
       = (Inr (), snd (ingest env0 ctf_B task1 world_two))
   \<and> ingest env0 ctf_B (task2\<lparr>c_category := str ''pwn'' @ [31]\<rparr>)
         (snd (ingest env0 ctf_B task1 world_two))
       = (Inr ctf_B, snd (ingest env0 ctf_B task1 world_two))"
proof -
  have a: "ingest env0 ctf_B task2 (snd (ingest env0 ctf_B task1 world_two))
       = (Inr ctf_B, snd (ingest env0 ctf_B task1 world_two))
     \<and> ingest_all env0 ctf_B [task2] (snd (ingest env0 ctf_B task1 world_two))
       = (Inr (), snd (ingest env0 ctf_B task1 world_two))"
    by (rule reingest_is_noop [of doc1])
       (simp_all add: first_ingest_store,
        simp_all add: doc1_def task2_def env0_def ascii_tables_def ascii_lower_def str_defs)
  have b: "ingest env0 ctf_B (task2\<lparr>c_category := str ''pwn'' @ [31]\<rparr>)
         (snd (ingest env0 ctf_B task1 world_two))
       = (Inr ctf_B, snd (ingest env0 ctf_B task1 world_two))"
    by (rule reingest_is_noop [of doc1, THEN conjunct1])
       (simp_all add: first_ingest_store,
        simp_all add: doc1_def task2_def env0_def ascii_tables_def ascii_lower_def str_defs)
  show ?thesis using a b by (simp add: first_ingest_store)
qed


lemma find_text_channel_map:
  assumes "\<And>c. chan_id (f c) = chan_id c \<and> chan_type (f c) = chan_type c"
    and "find (\<lambda>c. chan_id c = cid) (filter (\<lambda>c. chan_type c = TextChannel) xs) = Some a"
  shows "find (\<lambda>c. chan_id c = cid) (filter (\<lambda>c. chan_type c = TextChannel) (map f xs) @ zs)
         = Some (f a)"
  using assms(2)
proof (induction xs)
  case Nil
  then show ?case by simp
next
  case (Cons x xs)
  then show ?case by (auto simp: assms(1) split: if_splits)
qed





text \<open>
  A session whose stored name equals the trimmed name up to letter case is found, and
  nothing happens.
\<close>

lemma create_ctf_existing:
  assumes "c \<in> set (ctf_collection w)"
    and "list_all2 (caseless (ucd env)) (strip name) (ctf_name c)"
  shows "create_ctf env name live w = (Inr None, w)"
proof -
  have "find_ctf (ucd env) name w \<noteq> None"
    using assms unfolding find_ctf_def find_None_iff
    by (auto intro!: bexI [of _ c] regex_ci_match_caseless)
  then show ?thesis by (simp add: create_ctf_def)
qed

text \<open>
  C1. The claim: a second creation with the same name has no effect and leaves one
  session record and one set of channels. The record keeps the name as given while the
  lookup trims it, so for the name \<open>" foo "\<close> the second creation does not find the record
  of the first: it returns a new session, and the store then holds two records and the
  guild sixteen channels.
\<close>

theorem create_ctf_padded_name_twice:
  "fst (create_ctf env0 (str '' foo '') True empty_world) \<noteq> Inr None
   \<and> length (ctf_collection (snd (create_ctf env0 (str '' foo '') True empty_world))) = 1
   \<and> fst (create_ctf env0 (str '' foo '') True (snd (create_ctf env0 (str '' foo '') True empty_world)))
       \<noteq> Inr None
   \<and> length (ctf_collection (snd (create_ctf env0 (str '' foo '') True
        (snd (create_ctf env0 (str '' foo '') True empty_world))))) = 2
   \<and> length (channels (snd (create_ctf env0 (str '' foo '') True
        (snd (create_ctf env0 (str '' foo '') True empty_world))))) = 16"
  by (simp add: create_ctf_def example_defs act_defs Let_def str_defs)

lemma partial_first:
  "create_ctf env_insert_fails (str ''foo'') True empty_world = (Inl ApiError, world_partial)"
  by (simp add: create_ctf_def example_defs act_defs Let_def str_defs)

text \<open>
  C4, as stated: every creation call looks the artifact up first, so creating a session
  again after a partial failure duplicates nothing. On the code, when the first creation
  of \<open>foo\<close> fails at the insert of the session record, the second creation adds a second
  category and a second copy of every sub-channel.
\<close>

theorem create_ctf_after_partial_failure_counterexample:
  "create_ctf env_insert_fails (str ''foo'') True empty_world = (Inl ApiError, world_partial)
   \<and> ctf_collection world_partial = []
   \<and> length (filter (\<lambda>c. chan_name c = (str ''general'') \<and> chan_type c = TextChannel)
        (channels (snd (create_ctf env0 (str ''foo'') True world_partial)))) = 2
   \<and> length (categories (snd (create_ctf env0 (str ''foo'') True world_partial))) = 2
   \<and> length (channels (snd (create_ctf env0 (str ''foo'') True world_partial))) = 16"
proof -
  have "length (filter (\<lambda>c. chan_name c = (str ''general'') \<and> chan_type c = TextChannel)
        (channels (snd (create_ctf env0 (str ''foo'') True world_partial)))) = 2
   \<and> length (categories (snd (create_ctf env0 (str ''foo'') True world_partial))) = 2
   \<and> length (channels (snd (create_ctf env0 (str ''foo'') True world_partial))) = 16"
    by (simp add: create_ctf_def example_defs act_defs Let_def str_defs glyph_defs)
  moreover have "ctf_collection world_partial = []"
    by (simp add: world_partial_def)
  ultimately show ?thesis
    using partial_first by simp
qed

text \<open>
  C4, amended. When no session record is found and no call fails, session creation
  looks the role up by name and creates none when one exists, so a second creation after
  a partial failure does not duplicate the role; the eight sub-channels are created
  without any lookup, on every such creation.
\<close>

theorem create_ctf_checks_role_only:
  assumes ok: "\<And>n. api_ok env n" and new: "find_ctf (ucd env) name w = None"
  shows "(find (\<lambda>r. role_name r = name) (roles w) \<noteq> None
            \<longrightarrow> roles (snd (create_ctf env name live w)) = roles w)
     \<and> map chan_name (channels (snd (create_ctf env name live w))) =
         map chan_name (channels w) @
         [(str ''general''), (str ''general''), key_glyph @ (str ''-credentials''), memo_glyph @ (str ''-notes''),
          robot_glyph @ (str ''-bot-cmds''), megaphone_glyph @ (str ''-announcements''),
          party_glyph @ (str ''-solves''), chart_glyph @ (str ''-scoreboard'')]"
proof (cases "find (\<lambda>r. role_name r = name) (roles w)")
  case None
  show ?thesis
  proof (cases "find (\<lambda>c. cat_name c = name) (categories w)")
    case n: None
    show ?thesis using None n new by (simp add: create_ctf_def act_defs Let_def ok)
  next
    case s: (Some c)
    show ?thesis using None s new by (simp add: create_ctf_def act_defs Let_def ok)
  qed
next
  case (Some r)
  show ?thesis
  proof (cases "find (\<lambda>c. cat_name c = name) (categories w)")
    case n: None
    show ?thesis using Some n new by (simp add: create_ctf_def act_defs Let_def ok)
  next
    case s: (Some c)
    show ?thesis using Some s new by (simp add: create_ctf_def act_defs Let_def ok)
  qed
qed

theorem create_ctf_checks_role_only_witness:
  "find_ctf (ucd env0) (str ''foo'') world_partial = None
   \<and> find (\<lambda>r. role_name r = (str ''foo'')) (roles world_partial) \<noteq> None
   \<and> roles (snd (create_ctf env0 (str ''foo'') True world_partial)) = roles world_partial
   \<and> map chan_name (channels (snd (create_ctf env0 (str ''foo'') True world_partial))) =
         map chan_name (channels world_partial) @
         [(str ''general''), (str ''general''), key_glyph @ (str ''-credentials''), memo_glyph @ (str ''-notes''),
          robot_glyph @ (str ''-bot-cmds''), megaphone_glyph @ (str ''-announcements''),
          party_glyph @ (str ''-solves''), chart_glyph @ (str ''-scoreboard'')]"
proof -
  have ok: "api_ok env0 n" for n by (simp add: env0_def)
  have new: "find_ctf (ucd env0) (str ''foo'') world_partial = None"
    by (simp add: find_ctf_def world_partial_def)
  have role: "find (\<lambda>r. role_name r = (str ''foo'')) (roles world_partial) \<noteq> None"
    by (simp add: world_partial_def)
  show ?thesis
    using create_ctf_checks_role_only [of env0 "(str ''foo'')" world_partial True, OF ok new] new role
    by blast
qed

lemma find_text_channel_map0:
  assumes "\<And>c. chan_id (f c) = chan_id c \<and> chan_type (f c) = chan_type c"
    and "find (\<lambda>c. chan_id c = cid) (filter (\<lambda>c. chan_type c = TextChannel) xs) = Some a"
  shows "find (\<lambda>c. chan_id c = cid) (filter (\<lambda>c. chan_type c = TextChannel) (map f xs))
         = Some (f a)"
  using find_text_channel_map [OF assms, of "[]"] by simp

lemma text_channel_id: "text_channel cid w = Some a \<Longrightarrow> chan_id a = cid"
  by (auto simp: text_channel_def find_Some_iff)




lemma text_channel_trace [simp]: "text_channel cid (w\<lparr>trace := t\<rparr>) = text_channel cid w"
  by (simp add: text_channel_def)

lemma scoreboard_rows_nonempty: "teams \<noteq> [] \<Longrightarrow> scoreboard_rows env user width rank teams \<noteq> []"
  by (cases teams) (simp_all add: scoreboard_row_def)



text \<open>
  C10. When the fetch of a session's scoreboard returns an empty list, the run sends and
  edits nothing for that session: the channels stay as they were and the only effect is
  the fetch itself. For every non-empty list the table has at least one line, so the
  message is the rendered table and never the text \<open>No solves yet, or platform isn't CTFd.\<close>
\<close>

theorem scoreboard_empty_standings_silent:
  assumes u: "url (ctf_credentials ctf) = Some u"
  shows "(get_scoreboard env u (username (ctf_credentials ctf)) (password (ctf_credentials ctf))
            = Teams []
          \<longrightarrow> channels (snd (update_scoreboard env ctf w)) = channels w
              \<and> trace (snd (update_scoreboard env ctf w))
                  = (if api_ok env (length (trace w)) then trace w @ [GetScoreboard u]
                     else trace w))
       \<and> (\<forall>teams now user. teams \<noteq> [] \<longrightarrow>
            scoreboard_rows env user (name_field_width teams) 1 teams \<noteq> []
            \<and> scoreboard_message env now user teams =
                (str ''**Scoreboard as of '') @ now @ (str ''**'') @ (str ''```diff'') @ [10]
                @ (str ''  '') @ ljust 10 (str ''Rank'') @ ljust (name_field_width teams) (str ''Team'')
                @ (str ''Score'') @ [10]
                @ scoreboard_rows env user (name_field_width teams) 1 teams @ (str ''```'')
            \<and> scoreboard_message env now user teams \<noteq> (str ''No solves yet, or platform isn't CTFd.''))"
proof -
  have "channels (snd (update_scoreboard env ctf w)) = channels w
      \<and> trace (snd (update_scoreboard env ctf w))
          = (if api_ok env (length (trace w)) then trace w @ [GetScoreboard u] else trace w)"
    if "get_scoreboard env u (username (ctf_credentials ctf)) (password (ctf_credentials ctf))
            = Teams []"
    using that u by (simp add: update_scoreboard_def bnd_def call_def return_def)
  moreover have "scoreboard_rows env user (name_field_width teams) 1 teams \<noteq> []
            \<and> scoreboard_message env now user teams =
                (str ''**Scoreboard as of '') @ now @ (str ''**'') @ (str ''```diff'') @ [10]
                @ (str ''  '') @ ljust 10 (str ''Rank'') @ ljust (name_field_width teams) (str ''Team'')
                @ (str ''Score'') @ [10]
                @ scoreboard_rows env user (name_field_width teams) 1 teams @ (str ''```'')
            \<and> scoreboard_message env now user teams \<noteq> (str ''No solves yet, or platform isn't CTFd.'')"
    if "teams \<noteq> []" for teams :: "(pystr \<times> 'a) list" and now user
    using scoreboard_rows_nonempty [OF that, of env user "name_field_width teams" 1]
    by (simp add: scoreboard_message_def Let_def str_def)
  ultimately show ?thesis by blast
qed

theorem scoreboard_empty_standings_silent_witness:
  "channels (snd (update_scoreboard env_no_teams ctf_B world_board)) = channels world_board
   \<and> scoreboard_message env_no_teams (str ''now'') (Some (str ''team'')) [(str ''team'', 100)]
       \<noteq> str ''No solves yet, or platform isn't CTFd.''"
proof -
  have u: "url (ctf_credentials ctf_B) = Some (str ''https://b.example'')" by (simp add: ctf_B_def)
  have e: "get_scoreboard env_no_teams (str ''https://b.example'') (username (ctf_credentials ctf_B))
            (password (ctf_credentials ctf_B)) = Teams []"
    by (simp add: env_no_teams_def env0_def)
  have n: "[(str ''team'', 100::int)] \<noteq> []" by simp
  note inst = scoreboard_empty_standings_silent [OF u, of env_no_teams world_board]
  from inst e have "channels (snd (update_scoreboard env_no_teams ctf_B world_board))
      = channels world_board"
    by simp
  moreover
  have "scoreboard_message env_no_teams (str ''now'') (Some (str ''team'')) [(str ''team'', 100)]
       \<noteq> str ''No solves yet, or platform isn't CTFd.''"
    by (rule inst [THEN conjunct2, rule_format, OF n, of "Some (str ''team'')" "str ''now''",
          THEN conjunct2, THEN conjunct2])
  ultimately show ?thesis by simp
qed

lemma post_credentials_effects:
  assumes ok: "\<And>n. api_ok env n"
    and ch: "text_channel (credentials_ch (ctf_channels c)) w = Some a"
  shows "fst (post_credentials env (Some c) u pwd w) = Inr ()"
    and "trace (snd (post_credentials env (Some c) u pwd w)) = trace w @
           [UpdateCtf (ctf_oid c), Purge (credentials_ch (ctf_channels c)),
            Send (credentials_ch (ctf_channels c)) (credentials_message u (TEAM_NAME env) pwd)]"
    and "text_channel (credentials_ch (ctf_channels c)) (snd (post_credentials env (Some c) u pwd w))
         = Some (a\<lparr>messages := take (length (messages a) - 100) (messages a) @
              [\<lparr>msg_id = next_id w,
                content = credentials_message u (TEAM_NAME env) pwd, msg_embed = None,
                msg_view = None, pinned = False\<rparr>]\<rparr>)"
proof -
  have a: "find (\<lambda>k. chan_id k = credentials_ch (ctf_channels c))
             (filter (\<lambda>k. chan_type k = TextChannel) (channels w)) = Some a"
    using ch by (simp add: text_channel_def)
  note id = text_channel_id [OF ch]
  show "fst (post_credentials env (Some c) u pwd w) = Inr ()"
    using a by (simp add: post_credentials_def subscript_def purge_def act_defs Let_def ok id)
  show "trace (snd (post_credentials env (Some c) u pwd w)) = trace w @
           [UpdateCtf (ctf_oid c), Purge (credentials_ch (ctf_channels c)),
            Send (credentials_ch (ctf_channels c)) (credentials_message u (TEAM_NAME env) pwd)]"
    using a by (simp add: post_credentials_def subscript_def purge_def act_defs Let_def ok id)
  show "text_channel (credentials_ch (ctf_channels c)) (snd (post_credentials env (Some c) u pwd w))
         = Some (a\<lparr>messages := take (length (messages a) - 100) (messages a) @
              [\<lparr>msg_id = next_id w,
                content = credentials_message u (TEAM_NAME env) pwd, msg_embed = None,
                msg_view = None, pinned = False\<rparr>]\<rparr>)"
    using a by (simp add: post_credentials_def subscript_def purge_def act_defs Let_def ok id
        find_text_channel_map0 [OF _ a])
qed

lemma crowded_length: "length (messages crowded_channel) = 101"
  by (simp add: crowded_channel_def)

lemma crowded_oldest:
  "take (length (messages crowded_channel) - 100) (messages crowded_channel)
   = [\<lparr>msg_id = 1000, content = str ''oldest'', msg_embed = None, msg_view = None,
        pinned = False\<rparr>]"
  by (simp add: crowded_channel_def upt_rec [of 0])

text \<open>
  C6, as stated: after every successful pass the credentials channel holds exactly one
  posting. The purge of the code removes the hundred most recent messages only: on a
  credentials channel that holds 101 messages the pass leaves two, the oldest of the
  earlier messages and the new posting.
\<close>

theorem credentials_posting_counterexample:
  "map content (chan_messages (credentials_ch (ctf_channels ctf_B))
      (snd (post_credentials env0 (Some ctf_B) (str ''https://b.example'') (str ''aa'')
              world_crowded)))
   = [str ''oldest'', credentials_message (str ''https://b.example'') (str ''team'') (str ''aa'')]"
proof -
  have ok: "api_ok env0 n" for n by (simp add: env0_def)
  have ch: "text_channel (credentials_ch (ctf_channels ctf_B)) world_crowded
            = Some crowded_channel"
    by (simp add: text_channel_def ctf_B_def world_crowded_def world_two_def
        crowded_channel_def creds_channel_def)
  have team: "TEAM_NAME env0 = str ''team''" by (simp add: env0_def)
  show ?thesis
    using post_credentials_effects(3) [OF ok ch, of "str ''https://b.example''" "str ''aa''"]
    by (simp add: chan_messages_def crowded_oldest team)
qed

text \<open>
  C6, amended. After a successful credential provisioning pass the credentials channel
  holds its earlier messages other than the hundred most recent ones, followed by one new
  posting with the address, user name and password of that pass. Hence on a channel of
  at most a hundred messages, as is every channel that only these passes write to, the
  pass leaves exactly that one posting, and a further successful pass leaves again
  exactly one posting, with the values of the further pass. Each pass updates the stored
  credentials, purges the channel and sends one message.
\<close>

theorem credentials_posting_overwritten:
  assumes ok: "\<And>n. api_ok env n" and ok': "\<And>n. api_ok env' n"
    and ch: "text_channel (credentials_ch (ctf_channels c)) w = Some a"
  shows "let cid = credentials_ch (ctf_channels c);
             w1 = snd (post_credentials env (Some c) u pwd w);
             w2 = snd (post_credentials env' (Some c) u' pwd' w1)
         in map content (chan_messages cid w1)
              = map content (take (length (messages a) - 100) (messages a))
                @ [credentials_message u (TEAM_NAME env) pwd]
          \<and> trace w1 = trace w @ [UpdateCtf (ctf_oid c), Purge cid,
                Send cid (credentials_message u (TEAM_NAME env) pwd)]
          \<and> trace w2 = trace w1 @ [UpdateCtf (ctf_oid c), Purge cid,
                Send cid (credentials_message u' (TEAM_NAME env') pwd')]
          \<and> (length (messages a) \<le> 100 \<longrightarrow>
                map content (chan_messages cid w1) = [credentials_message u (TEAM_NAME env) pwd]
                \<and> map content (chan_messages cid w2)
                    = [credentials_message u' (TEAM_NAME env') pwd'])"
proof -
  define w1 where "w1 = snd (post_credentials env (Some c) u pwd w)"
  define a1 where "a1 = a\<lparr>messages := take (length (messages a) - 100) (messages a) @
              [\<lparr>msg_id = next_id w,
                content = credentials_message u (TEAM_NAME env) pwd, msg_embed = None,
                msg_view = None, pinned = False\<rparr>]\<rparr>"
  have ch1: "text_channel (credentials_ch (ctf_channels c)) w1 = Some a1"
    unfolding w1_def a1_def by (rule post_credentials_effects(3) [OF ok ch])
  note first = post_credentials_effects(2) [OF ok ch, of u pwd, folded w1_def]
  note second = post_credentials_effects(2,3) [OF ok' ch1, of u' pwd']
  show ?thesis
    unfolding Let_def w1_def [symmetric]
    using ch1 first second by (simp add: chan_messages_def a1_def)
qed

theorem credentials_posting_overwritten_witness:
  "let cid = credentials_ch (ctf_channels ctf_B);
       w1 = snd (post_credentials env0 (Some ctf_B) (str ''https://b.example'') (str ''aa'')
                   world_creds);
       w2 = snd (post_credentials env0 (Some ctf_B) (str ''https://b.example'') (str ''bb'') w1)
   in map content (chan_messages cid w1)
        = [credentials_message (str ''https://b.example'') (TEAM_NAME env0) (str ''aa'')]
    \<and> map content (chan_messages cid w2)
        = [credentials_message (str ''https://b.example'') (TEAM_NAME env0) (str ''bb'')]
    \<and> trace w1 = trace world_creds @ [UpdateCtf (ctf_oid ctf_B), Purge cid,
          Send cid (credentials_message (str ''https://b.example'') (TEAM_NAME env0) (str ''aa''))]
    \<and> trace w2 = trace w1 @ [UpdateCtf (ctf_oid ctf_B), Purge cid,
          Send cid (credentials_message (str ''https://b.example'') (TEAM_NAME env0) (str ''bb''))]"
proof -
  have ok: "api_ok env0 n" for n by (simp add: env0_def)
  have ch: "text_channel (credentials_ch (ctf_channels ctf_B)) world_creds = Some creds_channel"
    by (simp add: text_channel_def ctf_B_def world_creds_def world_two_def creds_channel_def)
  have le: "length (messages creds_channel) \<le> 100" by (simp add: creds_channel_def)
  show ?thesis
    using credentials_posting_overwritten [OF ok ok ch, of "str ''https://b.example''"
        "str ''aa''" "str ''https://b.example''" "str ''bb''"] le
    unfolding Let_def by simp
qed










lemma foo_created:
  "create_ctf env0 (str ''FooCTF 2024'') False world_foo = (Inr (Some ctf_foo), world_foo_created)"
  by (simp add: create_ctf_def example_defs act_defs Let_def str_defs)



lemma ended_same_refl [simp]: "ended_same w w"
  by (simp add: ended_same_def)

lemma ended_same_trans:
  assumes "ended_same w w'" and "ended_same w' w''"
  shows "ended_same w w''"
proof -
  from assms(1) obtain zs where zs: "flags w' = flags w @ zs" "list_all (\<lambda>p. \<not> snd p) zs"
    by (auto simp: ended_same_def prefix_def)
  from assms(2) obtain ys where ys: "flags w'' = flags w' @ ys" "list_all (\<lambda>p. \<not> snd p) ys"
    by (auto simp: ended_same_def prefix_def)
  show ?thesis
    using zs ys by (simp add: ended_same_def)
qed

lemma ended_same_flags: "flags w' = flags w \<Longrightarrow> ended_same w w'"
  by (simp add: ended_same_def)

lemma keepsD: "keeps m \<Longrightarrow> ended_same w (snd (m w))"
  by (simp add: keeps_def)

lemma keeps_flags: "(\<And>w. flags (snd (m w)) = flags w) \<Longrightarrow> keeps m"
  by (simp add: keeps_def ended_same_flags)

lemma keeps_return: "keeps (return x)"
  by (simp add: keeps_def return_def)

lemma keeps_raise: "keeps (raise e)"
  by (simp add: keeps_def raise_def)

lemma keeps_read: "keeps (\<lambda>w. (g w, w))"
  by (simp add: keeps_def)

lemma keeps_bnd: "keeps m \<Longrightarrow> (\<And>x. keeps (f x)) \<Longrightarrow> keeps (bnd m f)"
  unfolding keeps_def bnd_def
proof
  fix w assume m: "\<forall>w. ended_same w (snd (m w))" and f: "\<And>x. \<forall>w. ended_same w (snd (f x w))"
  show "ended_same w (snd (case m w of (Inl e, w') \<Rightarrow> (Inl e, w') | (Inr x, w') \<Rightarrow> f x w'))"
  proof (cases "m w")
    case (Pair r w')
    then have 1: "ended_same w w'" using m [rule_format, of w] by simp
    show ?thesis
    proof (cases r)
      case (Inl e)
      then show ?thesis using Pair 1 by simp
    next
      case (Inr x)
      then show ?thesis using Pair 1 f [of x, rule_format, of w'] by (auto intro: ended_same_trans)
    qed
  qed
qed

lemma keeps_dep: "(\<And>v. keeps (m v)) \<Longrightarrow> keeps (\<lambda>w. m w w)"
  by (simp add: keeps_def)

lemma keeps_call: "keeps (call env e)"
  by (rule keeps_flags) (simp add: call_def flags_def)

lemma keeps_attr: "keeps (attr x)"
  by (cases x) (simp_all add: attr_def keeps_return keeps_raise)

lemma keeps_subscript: "keeps (subscript x)"
  by (cases x) (simp_all add: subscript_def keeps_return keeps_raise)

lemma keeps_call_then: "(\<And>w. flags (snd (f w)) = flags w) \<Longrightarrow> keeps (bnd (call env e) (\<lambda>_. f))"
  by (intro keeps_bnd keeps_call keeps_flags)

lemma keeps_create_role: "keeps (create_role env name colour ment)"
  unfolding create_role_def by (rule keeps_call_then) (simp add: flags_def Let_def)

lemma keeps_create_category: "keeps (create_category env name ows)"
  unfolding create_category_def by (rule keeps_call_then) (simp add: flags_def Let_def)

lemma keeps_new_channel: "keeps (new_channel ty name cat ows)"
  by (rule keeps_flags) (simp add: new_channel_def flags_def Let_def)

lemma keeps_create_text_channel: "keeps (create_text_channel env name cat ows)"
  unfolding create_text_channel_def by (intro keeps_bnd keeps_call keeps_new_channel)

lemma keeps_create_voice_channel: "keeps (create_voice_channel env name cat ows)"
  unfolding create_voice_channel_def by (intro keeps_bnd keeps_call keeps_new_channel)

lemma keeps_send: "keeps (send env cid text emb view)"
  unfolding send_def by (rule keeps_call_then) (simp add: flags_def Let_def)

lemma keeps_pin: "keeps (pin env mid)"
  unfolding pin_def by (rule keeps_call_then) (simp add: flags_def)

lemma keeps_purge: "keeps (purge env cid)"
  unfolding purge_def by (rule keeps_call_then) (simp add: flags_def)

lemma keeps_edit_message: "keeps (edit_message env cid mid text)"
  unfolding edit_message_def by (rule keeps_call_then) (simp add: flags_def)

lemma keeps_edit_category: "keeps (edit_category env cid name)"
  unfolding edit_category_def by (rule keeps_call_then) (simp add: flags_def)

lemma keeps_add_roles: "keeps (add_roles env uid rid)"
  unfolding add_roles_def by (rule keeps_call_then) (simp add: flags_def)

lemma keeps_insert_challenge: "keeps (insert_challenge env doc)"
  unfolding insert_challenge_def by (rule keeps_call_then) (simp add: flags_def)

lemma keeps_fetch_member: "keeps (fetch_member uid)"
  by (rule keeps_flags) (simp add: fetch_member_def flags_def split: option.splits)

lemma keeps_insert_ctf: "\<not> ctf_ended doc \<Longrightarrow> keeps (insert_ctf env doc)"
  unfolding insert_ctf_def
  by (intro keeps_bnd keeps_call) (simp add: keeps_def ended_same_def flags_def Let_def)

lemma map_update_first:
  "(\<And>x. g (f x) = g x) \<Longrightarrow> map g (update_first p f xs) = map g xs"
  by (induction xs) simp_all

lemma keeps_update_ctf:
  "(\<And>c. ctf_ended (f c) = ctf_ended c \<and> ctf_oid (f c) = ctf_oid c) \<Longrightarrow>
   keeps (update_ctf env oid f)"
  unfolding update_ctf_def
  by (rule keeps_call_then) (simp add: flags_def map_update_first)

lemma keeps_find_or: "keeps m \<Longrightarrow> keeps (\<lambda>w. case g w of Some r \<Rightarrow> (Inr r, w) | None \<Rightarrow> m w)"
  by (auto simp: keeps_def split: option.splits)

lemmas keeps_intros = keeps_bnd keeps_return keeps_raise keeps_call keeps_attr keeps_subscript
  keeps_create_role keeps_create_category keeps_create_text_channel keeps_create_voice_channel
  keeps_send keeps_pin keeps_purge keeps_edit_message keeps_edit_category keeps_add_roles
  keeps_insert_challenge keeps_fetch_member

lemma keeps_create_ctf: "keeps (create_ctf env name live)"
  unfolding keeps_def
proof
  fix w
  show "ended_same w (snd (create_ctf env name live w))"
  proof (cases "find_ctf (ucd env) name w = None")
    case False
    then show ?thesis by (simp add: create_ctf_def)
  next
    case True
    show ?thesis
      unfolding create_ctf_def
      apply (subst if_not_P)
       apply (simp add: True)
      apply (rule keepsD)
      apply (rule keeps_bnd)
       apply (rule keeps_find_or, rule keeps_create_role)
      apply (rule keeps_bnd)
       apply (rule keeps_find_or)
       apply (simp add: keeps_def keepsD [OF keeps_create_category])
      apply (intro keeps_intros keeps_read keeps_insert_ctf)
      apply simp
      done
  qed
qed


lemma keeps_ingest: "keeps (ingest env ctf pulled)"
  unfolding keeps_def
proof
  fix w
  show "ended_same w (snd (ingest env ctf pulled w))"
  proof (cases "find_challenge (ucd env)
                  (pulled\<lparr>c_category := strip (title (ucd env) (c_category pulled))\<rparr>) w = None")
    case False
    then show ?thesis by (simp add: ingest_def Let_def)
  next
    case True
    show ?thesis
      unfolding ingest_def Let_def
      apply (subst if_not_P)
       apply (simp add: True)
      apply (rule keepsD [where m = "bnd _ _"])
      apply (intro keeps_intros keeps_read keeps_update_ctf)
       apply (simp add: keeps_def keepsD [OF keeps_attr])
      apply simp
      done
  qed
qed

lemma keeps_ingest_all: "keeps (ingest_all env ctf chs)"
  by (induction chs arbitrary: ctf) (auto intro: keeps_intros keeps_ingest)

lemma keeps_pull_sessions: "keeps (pull_sessions env ctfs)"
  by (induction ctfs) (auto intro!: keeps_intros keeps_ingest_all split: option.splits)

lemma keeps_challenge_puller: "keeps (challenge_puller env)"
  unfolding keeps_def challenge_puller_def by (simp add: keepsD [OF keeps_pull_sessions])

lemma keeps_post_scoreboard: "keeps (post_scoreboard env cid text)"
  unfolding post_scoreboard_def
  apply (rule keeps_bnd)
   apply (simp add: keeps_def keepsD [OF keeps_attr])
  apply (auto intro!: keeps_intros)
  done

lemma keeps_update_scoreboard: "keeps (update_scoreboard env ctf)"
  unfolding update_scoreboard_def
  by (auto intro!: keeps_intros keeps_read keeps_post_scoreboard
      split: option.splits scoreboard_result.splits)

lemma keeps_update_scoreboards: "keeps (update_scoreboards env ctfs)"
  by (induction ctfs) (auto intro!: keeps_intros keeps_update_scoreboard)

lemma keeps_scoreboard_updater: "keeps (scoreboard_updater env)"
  unfolding keeps_def scoreboard_updater_def by (simp add: keepsD [OF keeps_update_scoreboards])

lemma keeps_grant_role: "keeps (grant_role env role users)"
  by (induction users) (auto intro!: keeps_intros)

lemma keeps_post_credentials: "keeps (post_credentials env ctf u pwd)"
  unfolding post_credentials_def
  apply (intro keeps_intros keeps_update_ctf)
    apply simp
  apply (simp add: keeps_def keepsD [OF keeps_attr])
  done


lemma keeps_remind: "keeps (remind env local_time public_channel ev)"
  unfolding remind_def
  by (auto intro!: keeps_intros keeps_create_ctf keeps_read keeps_post_credentials
      keeps_grant_role split: option.splits list.splits)

lemma keeps_remind_all: "keeps (remind_all env local_time public_channel evs)"
  by (induction evs) (auto intro!: keeps_intros keeps_remind)

lemma keeps_ctf_reminder: "keeps (ctf_reminder env local_time)"
  unfolding keeps_def ctf_reminder_def by (simp add: keepsD [OF keeps_remind_all])

lemma keeps_event_started: "keeps (event_started env after)"
  unfolding event_started_def
  apply (intro keeps_intros keeps_create_ctf keeps_read keeps_grant_role)
   apply (simp_all add: keeps_def keepsD [OF keeps_attr])
  done

lemma ended_mono_refl [simp]: "ended_mono w w"
  by (simp add: ended_mono_def list_all2_same)

lemma ended_mono_trans: "ended_mono w w' \<Longrightarrow> ended_mono w' w'' \<Longrightarrow> ended_mono w w''"
  unfolding ended_mono_def
  by (rule list_all2_trans [where ?P1.0 = "\<lambda>p q. fst p = fst q \<and> (snd p \<longrightarrow> snd q)"
        and ?P2.0 = "\<lambda>p q. fst p = fst q \<and> (snd p \<longrightarrow> snd q)"]) auto

lemma ended_mono_flags: "flags w' = flags w \<Longrightarrow> ended_mono w w'"
  by (simp add: ended_mono_def list_all2_same)

lemma no_clearD: "no_clear m \<Longrightarrow> ended_mono w (snd (m w))"
  by (simp add: no_clear_def)

lemma no_clear_flags: "(\<And>w. flags (snd (m w)) = flags w) \<Longrightarrow> no_clear m"
  by (simp add: no_clear_def ended_mono_flags)

lemma no_clear_bnd: "no_clear m \<Longrightarrow> (\<And>x. no_clear (f x)) \<Longrightarrow> no_clear (bnd m f)"
  unfolding no_clear_def bnd_def
proof
  fix w assume m: "\<forall>w. ended_mono w (snd (m w))" and f: "\<And>x. \<forall>w. ended_mono w (snd (f x w))"
  show "ended_mono w (snd (case m w of (Inl e, w') \<Rightarrow> (Inl e, w') | (Inr x, w') \<Rightarrow> f x w'))"
  proof (cases "m w")
    case (Pair r w')
    then have 1: "ended_mono w w'" using m [rule_format, of w] by simp
    show ?thesis
    proof (cases r)
      case (Inl e)
      then show ?thesis using Pair 1 by simp
    next
      case (Inr x)
      then show ?thesis using Pair 1 f [of x, rule_format, of w'] by (auto intro: ended_mono_trans)
    qed
  qed
qed

lemma no_clear_call_then: "(\<And>w. flags (snd (f w)) = flags w) \<Longrightarrow> no_clear (bnd (call env e) (\<lambda>_. f))"
  by (intro no_clear_bnd no_clear_flags) (simp_all add: call_def flags_def)

lemma no_clear_send: "no_clear (send env cid text emb view)"
  unfolding send_def by (rule no_clear_call_then) (simp add: flags_def Let_def)

lemma no_clear_edit_category: "no_clear (edit_category env cid name)"
  unfolding edit_category_def by (rule no_clear_call_then) (simp add: flags_def)

lemma no_clear_attr_read: "no_clear (\<lambda>w. attr (g w) w)"
  by (rule no_clear_flags) (simp add: attr_def raise_def return_def split: option.splits)

lemma no_clear_attr: "no_clear (attr x)"
  by (rule no_clear_flags) (simp add: attr_def raise_def return_def split: option.splits)

lemma no_clear_read: "no_clear (\<lambda>w. (g w, w))"
  by (rule no_clear_flags) simp

lemma list_all2_update_first:
  "(\<And>x. R x (f x)) \<Longrightarrow> (\<And>x. R x x) \<Longrightarrow> list_all2 R xs (update_first p f xs)"
  by (induction xs) (simp_all add: list_all2_same)

lemma no_clear_set_ended: "no_clear (update_ctf env oid (\<lambda>d. d\<lparr>ctf_ended := True\<rparr>))"
  unfolding update_ctf_def
  apply (rule no_clear_bnd)
   apply (rule no_clear_flags, simp add: call_def flags_def)
  apply (simp add: no_clear_def ended_mono_def flags_def list_all2_map1 list_all2_map2)
  apply (rule allI, rule list_all2_update_first)
   apply simp_all
  done

lemma no_clear_event_ended: "no_clear (event_ended env after)"
  unfolding no_clear_def
proof
  fix w
  show "ended_mono w (snd (event_ended env after w))"
  proof (cases "find_ctf (ucd env) (ev_name after) w")
    case None
    then show ?thesis by (simp add: event_ended_def)
  next
    case (Some c)
    show ?thesis
      unfolding event_ended_def Some option.case
      apply (rule no_clearD [where m = "bnd _ _"])
      apply (intro no_clear_bnd no_clear_send no_clear_edit_category no_clear_attr_read no_clear_attr
          no_clear_read no_clear_set_ended)
      done
  qed
qed


lemma keeps_attr_read: "keeps (\<lambda>w. attr (g w) w)"
  by (rule keeps_flags) (simp add: attr_def raise_def return_def split: option.splits)

lemma keeps_upcoming_event: "keeps (upcoming_event env local_time known eid)"
  unfolding upcoming_event_def
  apply (auto intro!: keeps_intros keeps_read keeps_attr_read split: option.splits)
   apply (rule keeps_flags, simp add: flags_def)+
  done

lemma keeps_upcoming_events: "keeps (upcoming_events env local_time known eids)"
  by (induction eids) (auto intro!: keeps_intros keeps_upcoming_event)

lemma keeps_create_upcoming_events: "keeps (create_upcoming_events env local_time)"
  unfolding keeps_def
proof
  fix w
  show "ended_same w (snd (create_upcoming_events env local_time w))"
    unfolding create_upcoming_events_def
    apply (rule keepsD [where m = "bnd _ _"])
    apply (auto intro!: keeps_intros keeps_upcoming_events split: option.splits)
    done
qed

lemma event_ended_collection:
  assumes "find_ctf (ucd env) (ev_name after) w = Some c"
  shows "ctf_collection (snd (event_ended env after w))
         = (if fst (event_ended env after w) = Inr ()
            then update_first (\<lambda>d. ctf_oid d = ctf_oid c) (\<lambda>d. d\<lparr>ctf_ended := True\<rparr>)
                   (ctf_collection w)
            else ctf_collection w)"
  using assms
  by (simp add: event_ended_def edit_category_def bnd_def return_def raise_def call_def
      attr_def send_def update_ctf_def Let_def split: option.splits)

lemma foo_pending_ended:
  "fst (on_scheduled_event_update env0 ev_foo_active ev_foo_ended world_foo_created) = Inr ()
   \<and> flags (snd (on_scheduled_event_update env0 ev_foo_active ev_foo_ended world_foo_created))
       = [(1, True)]
   \<and> map cat_name (categories
        (snd (on_scheduled_event_update env0 ev_foo_active ev_foo_ended world_foo_created)))
       = [alarm_clock @ str '' FooCTF 2024'']"
  by (simp add: on_scheduled_event_update_def event_ended_def edit_category_def flags_def
      general_channel_def example_defs act_defs Let_def str_defs glyph_defs)

text \<open>
  The handler of the change from active to ended looks the session up by the name of the
  event and nothing else.  The session of the scenario was created by the reminder, not
  live: its category shows the alarm clock and the change from scheduled to active was never
  handled for it.  When its event goes from active to ended the handler succeeds and marks
  the session as ended all the same; the category still shows the alarm clock.
\<close>
theorem pending_session_ended_counterexample:
  "create_ctf env0 (str ''FooCTF 2024'') False world_foo
     = (Inr (Some ctf_foo), world_foo_created)
   \<and> map cat_name (categories world_foo_created) = [alarm_clock @ str '' FooCTF 2024'']
   \<and> flags world_foo_created = [(1, False)]
   \<and> fst (on_scheduled_event_update env0 ev_foo_active ev_foo_ended world_foo_created) = Inr ()
   \<and> flags (snd (on_scheduled_event_update env0 ev_foo_active ev_foo_ended world_foo_created))
       = [(1, True)]
   \<and> map cat_name (categories
        (snd (on_scheduled_event_update env0 ev_foo_active ev_foo_ended world_foo_created)))
       = [alarm_clock @ str '' FooCTF 2024'']"
proof -
  have a: "map cat_name (categories world_foo_created) = [alarm_clock @ str '' FooCTF 2024'']"
    "flags world_foo_created = [(1, False)]"
    by (simp_all add: world_foo_created_def flags_def ctf_foo_def)
  show ?thesis using foo_created a foo_pending_ended by simp
qed

lemma foo_live_ended:
  "find_ctf (ucd env0) (ev_name ev_foo_ended) world_foo_live = Some ctf_foo
   \<and> fst (on_scheduled_event_update env0 ev_foo_active ev_foo_ended world_foo_live) = Inr ()"
  by (simp add: on_scheduled_event_update_def event_ended_def edit_category_def
      general_channel_def example_defs act_defs Let_def str_defs glyph_defs)

lemma foo_none:
  "find_ctf (ucd env0) (ev_name ev_foo_ended) world_foo = None"
  by (simp add: find_ctf_def world_foo_def)

text \<open>
  C9. The ended flag of the stored sessions. Session creation and the four periodic jobs
  (event sync, reminder, task puller, scoreboard updater), whatever their outcome, leave
  the flag of every stored session as it was and add only sessions that are not ended;
  so does the event handler on every status change other than active to ended. On the
  change from active to ended the handler adds and removes no session and clears no
  flag.  When no stored session has the name of the event (trimmed, letter case ignored) it
  does nothing at all; otherwise, with \<open>c\<close> the first stored session of that name, the
  store after the handler is the store before with the flag of \<open>c\<close> set, and of \<open>c\<close>
  only, when the handler succeeds, and the store before when it fails.  The handler does not
  look at whether \<open>c\<close> was live.  Hence a session becomes ended only through that change
  of the calendar event of its name, and no job or handler makes an ended session not ended.
  The task puller and the scoreboard updater run over the sessions that are not ended only,
  and do nothing at all when every stored session is ended.
\<close>
theorem ended_flag_lifecycle:
  "ended_same w (snd (create_ctf env name live w))
   \<and> ended_same w (snd (create_upcoming_events env local_time w))
   \<and> ended_same w (snd (ctf_reminder env local_time w))
   \<and> ended_same w (snd (challenge_puller env w))
   \<and> ended_same w (snd (scoreboard_updater env w))
   \<and> (\<not> (ev_status before = active \<and> ev_status after = ended)
        \<longrightarrow> ended_same w (snd (on_scheduled_event_update env before after w)))
   \<and> (ev_status before = active \<and> ev_status after = ended
        \<longrightarrow> ended_mono w (snd (on_scheduled_event_update env before after w))
          \<and> (find_ctf (ucd env) (ev_name after) w = None
               \<longrightarrow> on_scheduled_event_update env before after w = (Inr (), w))
          \<and> (find_ctf (ucd env) (ev_name after) w = Some c
               \<longrightarrow> ctf_collection (snd (on_scheduled_event_update env before after w))
                   = (if fst (on_scheduled_event_update env before after w) = Inr ()
                      then update_first (\<lambda>d. ctf_oid d = ctf_oid c)
                             (\<lambda>d. d\<lparr>ctf_ended := True\<rparr>) (ctf_collection w)
                      else ctf_collection w)))
   \<and> challenge_puller env w
       = pull_sessions env (filter (\<lambda>c. \<not> ctf_ended c) (ctf_collection w)) w
   \<and> scoreboard_updater env w
       = update_scoreboards env (filter (\<lambda>c. \<not> ctf_ended c) (ctf_collection w)) w
   \<and> (list_all ctf_ended (ctf_collection w)
        \<longrightarrow> challenge_puller env w = (Inr (), w) \<and> scoreboard_updater env w = (Inr (), w))"
proof -
  have started: "ended_same w (snd (on_scheduled_event_update env before after w))"
    if "\<not> (ev_status before = active \<and> ev_status after = ended)"
    using that keepsD [OF keeps_event_started, of w env after]
    by (auto simp: on_scheduled_event_update_def return_def)
  have h: "on_scheduled_event_update env before after w = event_ended env after w"
    if "ev_status before = active \<and> ev_status after = ended"
    using that by (simp add: on_scheduled_event_update_def)
  have finished: "ended_mono w (snd (on_scheduled_event_update env before after w))"
    if "ev_status before = active \<and> ev_status after = ended"
    unfolding h [OF that] by (rule no_clearD [OF no_clear_event_ended])
  have absent: "on_scheduled_event_update env before after w = (Inr (), w)"
    if "ev_status before = active \<and> ev_status after = ended"
      and "find_ctf (ucd env) (ev_name after) w = None"
    unfolding h [OF that(1)] using that(2) by (simp add: event_ended_def)
  have present: "ctf_collection (snd (on_scheduled_event_update env before after w))
                   = (if fst (on_scheduled_event_update env before after w) = Inr ()
                      then update_first (\<lambda>d. ctf_oid d = ctf_oid c)
                             (\<lambda>d. d\<lparr>ctf_ended := True\<rparr>) (ctf_collection w)
                      else ctf_collection w)"
    if "ev_status before = active \<and> ev_status after = ended"
      and "find_ctf (ucd env) (ev_name after) w = Some c"
    unfolding h [OF that(1)] by (rule event_ended_collection [OF that(2)])
  have none: "challenge_puller env w = (Inr (), w) \<and> scoreboard_updater env w = (Inr (), w)"
    if "list_all ctf_ended (ctf_collection w)"
  proof -
    from that have "filter (\<lambda>c. \<not> ctf_ended c) (ctf_collection w) = []"
      by (simp add: filter_empty_conv list_all_iff)
    then show ?thesis
      by (simp add: challenge_puller_def scoreboard_updater_def return_def)
  qed
  have defs: "challenge_puller env w
       = pull_sessions env (filter (\<lambda>c. \<not> ctf_ended c) (ctf_collection w)) w"
    "scoreboard_updater env w
       = update_scoreboards env (filter (\<lambda>c. \<not> ctf_ended c) (ctf_collection w)) w"
    by (simp_all add: challenge_puller_def scoreboard_updater_def)
  show ?thesis
    by (intro conjI impI keepsD [OF keeps_create_ctf] keepsD [OF keeps_create_upcoming_events]
        keepsD [OF keeps_ctf_reminder] keepsD [OF keeps_challenge_puller]
        keepsD [OF keeps_scoreboard_updater] started finished absent present defs
        none [THEN conjunct1] none [THEN conjunct2]) simp_all
qed

text \<open>
  The session of the scenario is live and a second session is stored.  When the event of the
  scenario ends, the first session is marked as ended and the second is left as it is.  In a
  world with no session the same change does nothing.  Once the session is ended, a change
  from scheduled to active leaves its flag set, and the task puller and the scoreboard
  updater do nothing.
\<close>
theorem ended_flag_lifecycle_witness:
  "ended_mono world_foo_live
     (snd (on_scheduled_event_update env0 ev_foo_active ev_foo_ended world_foo_live))
   \<and> ctf_collection (snd (on_scheduled_event_update env0 ev_foo_active ev_foo_ended world_foo_live))
       = [ctf_foo\<lparr>ctf_ended := True\<rparr>, ctf_B]
   \<and> on_scheduled_event_update env0 ev_foo_active ev_foo_ended world_foo = (Inr (), world_foo)
   \<and> ended_same world_foo_over
       (snd (on_scheduled_event_update env0 ev_foo ev_foo_active world_foo_over))
   \<and> challenge_puller env0 world_foo_over = (Inr (), world_foo_over)
   \<and> scoreboard_updater env0 world_foo_over = (Inr (), world_foo_over)"
proof -
  have a: "ev_status ev_foo_active = active \<and> ev_status ev_foo_ended = ended"
    by (simp add: ev_foo_active_def ev_foo_ended_def)
  have b: "\<not> (ev_status ev_foo = active \<and> ev_status ev_foo_active = ended)"
    by (simp add: ev_foo_active_def)
  have c: "list_all ctf_ended (ctf_collection world_foo_over)"
    by (simp add: world_foo_over_def)
  have upd: "update_first (\<lambda>d. ctf_oid d = ctf_oid ctf_foo) (\<lambda>d. d\<lparr>ctf_ended := True\<rparr>)
               (ctf_collection world_foo_live) = [ctf_foo\<lparr>ctf_ended := True\<rparr>, ctf_B]"
    by (simp add: world_foo_live_def ctf_foo_def)
  note live = ended_flag_lifecycle [of world_foo_live env0 "[]" True 0 ev_foo_active
      ev_foo_ended ctf_foo, THEN conjunct2, THEN conjunct2, THEN conjunct2, THEN conjunct2,
      THEN conjunct2, THEN conjunct2, THEN conjunct1, rule_format, OF a]
  note empty = ended_flag_lifecycle [of world_foo env0 "[]" True 0 ev_foo_active
      ev_foo_ended ctf_foo, THEN conjunct2, THEN conjunct2, THEN conjunct2, THEN conjunct2,
      THEN conjunct2, THEN conjunct2, THEN conjunct1, rule_format, OF a]
  note over = ended_flag_lifecycle [of world_foo_over env0 "[]" True 0 ev_foo ev_foo_active
      ctf_foo]
  have 1: "ended_mono world_foo_live
     (snd (on_scheduled_event_update env0 ev_foo_active ev_foo_ended world_foo_live))"
    using live by (rule conjunct1)
  have 2: "ctf_collection
       (snd (on_scheduled_event_update env0 ev_foo_active ev_foo_ended world_foo_live))
       = [ctf_foo\<lparr>ctf_ended := True\<rparr>, ctf_B]"
    using live [THEN conjunct2, THEN conjunct2, rule_format, OF foo_live_ended [THEN conjunct1]]
      foo_live_ended [THEN conjunct2] upd by simp
  have 3: "on_scheduled_event_update env0 ev_foo_active ev_foo_ended world_foo
           = (Inr (), world_foo)"
    using empty [THEN conjunct2, THEN conjunct1, rule_format, OF foo_none] .
  have 4: "ended_same world_foo_over
       (snd (on_scheduled_event_update env0 ev_foo ev_foo_active world_foo_over))"
    using over [THEN conjunct2, THEN conjunct2, THEN conjunct2, THEN conjunct2,
      THEN conjunct2, THEN conjunct1, rule_format, OF b] .
  have 5: "challenge_puller env0 world_foo_over = (Inr (), world_foo_over)
      \<and> scoreboard_updater env0 world_foo_over = (Inr (), world_foo_over)"
    using over [THEN conjunct2, THEN conjunct2, THEN conjunct2, THEN conjunct2,
      THEN conjunct2, THEN conjunct2, THEN conjunct2, THEN conjunct2, THEN conjunct2,
      rule_format, OF c] .
  show ?thesis using 1 2 3 4 5 by blast
qed

end
